theory Spec2Isabelle
  imports Main
begin

section \<open>Values, strings and errors\<close>

text \<open>
  The scripts of the repository (\<^verbatim>\<open>missing.py\<close>, \<^verbatim>\<open>wiki_birth.py\<close>,
  \<^verbatim>\<open>wiki_german_de.py\<close>, \<^verbatim>\<open>birthlabel.py\<close>, \<^verbatim>\<open>wiki.py\<close>) are modelled
  as functions on an explicit world: the checkpoint file, the number of HTTP requests
  issued so far, the files written and the warnings and errors logged. The network is an
  oracle that maps the number of the request and its payload to what the request does.
  Sleeping (\<^verbatim>\<open>time.sleep\<close>) and the messages logged at level INFO are not modelled.
  Writing a file is taken to succeed.
\<close>

datatype py_error =
  RequestException | OSError | ValueError | KeyError | IndexError | AttributeError | TypeError | OtherError

text \<open>
  A cell of a data frame, or a JSON value of a response: a string, \<^verbatim>\<open>None\<close>,
  the float NaN that pandas puts where a record has no value for a column, or a
  dictionary. SPARQL results and CSV files of identifiers hold no other kind of value.
\<close>

datatype cell = CNone | CNaN | CStr string | CDict "(string \<times> cell) list"

text \<open>
  A string is a list of characters, each a code point below 256. \<^verbatim>\<open>str.strip()\<close>
  removes the characters that \<^verbatim>\<open>str.isspace\<close> accepts from both ends; below 256
  these are the ASCII blanks and separators, the next-line character U+0085 and the
  no-break space U+00A0.
\<close>

definition py_isspace :: "char \<Rightarrow> bool" where
  "py_isspace c = (c \<in> set [CHR 0x09, CHR 0x0A, CHR 0x0B, CHR 0x0C, CHR 0x0D,
                               CHR 0x1C, CHR 0x1D, CHR 0x1E, CHR 0x1F, CHR 0x20,
                               CHR 0x85, CHR 0xA0])"

definition strip :: "string \<Rightarrow> string" where
  "strip s = rev (dropWhile py_isspace (rev (dropWhile py_isspace s)))"

text \<open>
  Reading a file opened in text mode translates every line ending
  (\<^verbatim>\<open>\r\n\<close>, \<^verbatim>\<open>\r\<close>) to \<^verbatim>\<open>\n\<close>.
\<close>

fun universal_newlines :: "string \<Rightarrow> string" where
  "universal_newlines [] = []"
| "universal_newlines [c] = [if c = CHR 0x0D then CHR 0x0A else c]"
| "universal_newlines (c # d # cs) =
     (if c = CHR 0x0D \<and> d = CHR 0x0A then CHR 0x0A # universal_newlines cs
      else if c = CHR 0x0D then CHR 0x0A # universal_newlines (d # cs)
      else c # universal_newlines (d # cs))"

text \<open>\<^verbatim>\<open>s.split(sep)\<close> for a separator of one character.\<close>

fun split_on :: "char \<Rightarrow> string \<Rightarrow> string list" where
  "split_on sep [] = [[]]"
| "split_on sep (c # cs) =
     (if c = sep then [] # split_on sep cs
      else (case split_on sep cs of
              [] \<Rightarrow> [[c]]
            | p # ps \<Rightarrow> (c # p) # ps))"

section \<open>Checkpoint store\<close>

text \<open>
  The backing file of the pointer: absent, present but not readable (opening or reading
  it raises), or readable with its content. A file that \<^verbatim>\<open>save_pointer\<close> creates
  is readable; one that was unreadable stays so when it is overwritten.
\<close>

datatype pfile = Absent | Unreadable string | Readable string

text \<open>
  The messages logged at level WARNING or ERROR: one constructor for each call of
  \<^verbatim>\<open>logger.warning\<close> or \<^verbatim>\<open>logger.error\<close> that the model reaches, with the values
  its text shows.
\<close>

datatype log_event =
    Request_error nat nat
  | Max_retries_reached
  | Too_many_failures
  | Missing_or_invalid_pointer_fields
  | Error_extracting_pointer py_error
  | Error_reading_pointer_file py_error
  | File_not_found
  | Missing_id_column
  | Error_reading_csv py_error
  | No_ids_found
  | Pointer_not_found string
  | Failed_to_fetch_id string
  | No_data_fetched
  | Error_loading_output py_error
  | Attempt_failed nat string
  | Failed_after_retries string nat
  | Batch_request_failed py_error
  | Fatal_error_batch nat py_error
  | Failed_to_process string py_error
  | Error_reading_input py_error
  | Error_reading_checkpoint py_error
  | Error_processing_row string py_error

text \<open>\<^verbatim>\<open>save_pointer\<close> (all three scripts): \<^verbatim>\<open>open(filename, "w")\<close> and one write.\<close>

definition save_pointer :: "string \<Rightarrow> pfile \<Rightarrow> pfile" where
  "save_pointer pointer f =
     (case f of Unreadable _ \<Rightarrow> Unreadable pointer | _ \<Rightarrow> Readable pointer)"

text \<open>
  \<^verbatim>\<open>load_pointer\<close> of \<^verbatim>\<open>wiki_birth.py\<close> and \<^verbatim>\<open>wiki_german_de.py\<close>:
  no handler around the read.
\<close>

definition load_pointer :: "pfile \<Rightarrow> py_error + string option" where
  "load_pointer f =
     (case f of
        Absent \<Rightarrow> Inr None
      | Unreadable _ \<Rightarrow> Inl OSError
      | Readable s \<Rightarrow> Inr (Some (strip (universal_newlines s))))"

text \<open>
  \<^verbatim>\<open>load_pointer\<close> of \<^verbatim>\<open>missing.py\<close>: the read is inside
  \<^verbatim>\<open>try ... except Exception\<close>, which logs the error and falls through to
  \<^verbatim>\<open>return None\<close>. The second component is what it logs.
\<close>

definition load_pointer_missing :: "pfile \<Rightarrow> string option \<times> log_event list" where
  "load_pointer_missing f =
     (case f of
        Absent \<Rightarrow> (None, [])
      | Unreadable _ \<Rightarrow> (None, [Error_reading_pointer_file OSError])
      | Readable s \<Rightarrow> (Some (strip (universal_newlines s)), []))"

text \<open>The file is absent or can be read.\<close>

definition accessible :: "pfile \<Rightarrow> bool" where
  "accessible f = (case f of Unreadable _ \<Rightarrow> False | _ \<Rightarrow> True)"

section \<open>Data frames and the normalizer\<close>

text \<open>
  A pandas data frame, column by column: the number of rows and, for each column name,
  its series of cells. A binding is one record of a SPARQL response (a JSON object).
\<close>

record dataframe =
  nrows :: nat
  cols :: "(string \<times> cell list) list"

type_synonym binding = "(string \<times> cell) list"

definition empty_df :: dataframe where
  "empty_df = \<lparr>nrows = 0, cols = []\<rparr>"

text \<open>\<^verbatim>\<open>DataFrame.empty\<close>: an axis of length 0.\<close>

definition df_empty :: "dataframe \<Rightarrow> bool" where
  "df_empty d = (nrows d = 0 \<or> cols d = [])"

text \<open>
  \<^verbatim>\<open>pd.DataFrame.from_records(results)\<close> on a list of dictionaries: the columns are
  the keys in the order of their first appearance, and a record without a key has NaN there.
\<close>

fun add_keys :: "string list \<Rightarrow> string list \<Rightarrow> string list" where
  "add_keys seen [] = seen"
| "add_keys seen (k # ks) = add_keys (if k \<in> set seen then seen else seen @ [k]) ks"

definition record_keys :: "binding list \<Rightarrow> string list" where
  "record_keys rs = fold (\<lambda>r seen. add_keys seen (map fst r)) rs []"

definition from_records :: "binding list \<Rightarrow> dataframe" where
  "from_records rs =
     \<lparr>nrows = length rs,
      cols = map (\<lambda>k. (k, map (\<lambda>r. case map_of r k of None \<Rightarrow> CNaN | Some v \<Rightarrow> v) rs))
                 (record_keys rs)\<rparr>"

text \<open>
  \<^verbatim>\<open>process_results\<close> (the same in the three scripts). The function applied to every
  cell is \<^verbatim>\<open>lambda x: x.get("value", None) if isinstance(x, dict) else x\<close>.
\<close>

definition unwrap_value :: "cell \<Rightarrow> cell" where
  "unwrap_value x =
     (case x of
        CDict kvs \<Rightarrow> (case map_of kvs ''value'' of None \<Rightarrow> CNone | Some v \<Rightarrow> v)
      | _ \<Rightarrow> x)"

definition column :: "dataframe \<Rightarrow> string \<Rightarrow> cell list option" where
  "column d c = map_of (cols d) c"

definition set_column :: "dataframe \<Rightarrow> string \<Rightarrow> cell list \<Rightarrow> dataframe" where
  "set_column d c ser = d\<lparr>cols := map (\<lambda>(k, s). if k = c then (k, ser) else (k, s)) (cols d)\<rparr>"

definition process_results :: "dataframe \<Rightarrow> dataframe" where
  "process_results df =
     fold (\<lambda>col d. case column d col of
                      None \<Rightarrow> d
                    | Some ser \<Rightarrow> set_column d col (map unwrap_value ser))
          (map fst (cols df)) df"

text \<open>
  A raw field as the specification describes it: a plain scalar, or an envelope whose
  \<^verbatim>\<open>value\<close>, when it has one, is a scalar.
\<close>

definition flat_cell :: "cell \<Rightarrow> bool" where
  "flat_cell x =
     (case x of
        CDict kvs \<Rightarrow> (case map_of kvs ''value'' of Some (CDict _) \<Rightarrow> False | _ \<Rightarrow> True)
      | _ \<Rightarrow> True)"

definition flat_batch :: "binding list \<Rightarrow> bool" where
  "flat_batch rs = list_all (\<lambda>r. list_all (\<lambda>kv. flat_cell (snd kv)) r) rs"

section \<open>The world and the fetcher\<close>

text \<open>
  What the SPARQL scripts read and write: the pointer file, the number of HTTP requests
  sent so far, the intermediate result files written (each the list of batches that was
  concatenated), the final result file and the log.
\<close>

record world =
  pointer_file :: pfile
  requests :: nat
  snapshots :: "dataframe list list"
  final_output :: "dataframe list option"
  logged :: "log_event list"

definition logmsg :: "log_event \<Rightarrow> world \<Rightarrow> world" where
  "logmsg e w = w\<lparr>logged := logged w @ [e]\<rparr>"

text \<open>
  What one HTTP request does: it raises a \<^verbatim>\<open>requests.exceptions.RequestException\<close>
  (network error, status that is not 2xx, body that is not JSON), it raises another
  exception (a body of the wrong shape), or it gives a body. The network maps the
  number of the request and its payload to one of the three.
\<close>

datatype 'r response = Request_exception | Other_exception py_error | Body 'r

text \<open>
  The payload of a SPARQL request, as the values the query text is built from: the
  window of birth years with the pagination filter when the script adds it, or the
  identifier of one person.
\<close>

datatype query = Window_query int int "(cell \<times> cell) option" | Person_query string

definition MAX_RETRIES :: nat where
  "MAX_RETRIES = 10"

text \<open>
  \<^verbatim>\<open>query_wikidata\<close> (the same in the three scripts up to the length of the sleep):
  the loop \<^verbatim>\<open>for attempt in range(max_retries)\<close>, then the error and \<^verbatim>\<open>return None\<close>.
  The body of a response is its list \<^verbatim>\<open>results.bindings\<close>.
\<close>

fun query_attempts ::
  "(nat \<Rightarrow> 'q \<Rightarrow> binding list response) \<Rightarrow> 'q \<Rightarrow> nat \<Rightarrow> nat list \<Rightarrow> world
     \<Rightarrow> (py_error + dataframe option) \<times> world" where
  "query_attempts net query max_retries [] w = (Inr None, logmsg Max_retries_reached w)"
| "query_attempts net query max_retries (attempt # rest) w =
     (case net (requests w) query of
        Body results \<Rightarrow>
          (Inr (Some (if results \<noteq> [] then from_records results else empty_df)),
           w\<lparr>requests := Suc (requests w)\<rparr>)
      | Request_exception \<Rightarrow>
          query_attempts net query max_retries rest
            (logmsg (Request_error (attempt + 1) max_retries) (w\<lparr>requests := Suc (requests w)\<rparr>))
      | Other_exception e \<Rightarrow> (Inl e, w\<lparr>requests := Suc (requests w)\<rparr>))"

definition query_wikidata ::
  "(nat \<Rightarrow> 'q \<Rightarrow> binding list response) \<Rightarrow> 'q \<Rightarrow> nat \<Rightarrow> world
     \<Rightarrow> (py_error + dataframe option) \<times> world" where
  "query_wikidata net query max_retries w = query_attempts net query max_retries [0..<max_retries] w"

text \<open>
  How one pass through the body of a loop ends: at the end of the body or at
  \<^verbatim>\<open>continue\<close>, at \<^verbatim>\<open>break\<close>, at \<^verbatim>\<open>return\<close>, or with an exception that nothing
  catches. How a loop or a function ends: normally, at \<^verbatim>\<open>return\<close> inside a loop, or
  with an exception.
\<close>

datatype 'a flow = Continue 'a | Break 'a | Return 'a | Raise py_error 'a

datatype 'a outcome = Finished 'a | Returned 'a | Raised py_error 'a

section \<open>The loop over a list of identifiers\<close>

text \<open>
  \<^verbatim>\<open>missing.py\<close>. The CSV file of identifiers: missing, unreadable for
  \<^verbatim>\<open>pd.read_csv\<close>, or a table whose cells are strings or empty (NaN).
\<close>

datatype ids_file = File_missing | Read_error py_error | Columns "(string \<times> string option list) list"

definition SAVE_EVERY_N_BATCHES_ids :: nat where
  "SAVE_EVERY_N_BATCHES_ids = 50"

text \<open>\<^verbatim>\<open>lambda x: x.split("/")[-1] if "/" in x else x\<close>, after \<^verbatim>\<open>dropna()\<close>.\<close>

definition id_of_cell :: "string \<Rightarrow> string" where
  "id_of_cell x = (if CHR ''/'' \<in> set x then last (split_on (CHR ''/'') x) else x)"

definition ids_of_column :: "string option list \<Rightarrow> string list" where
  "ids_of_column col = map id_of_cell (concat (map (\<lambda>x. case x of None \<Rightarrow> [] | Some s \<Rightarrow> [s]) col))"

text \<open>\<^verbatim>\<open>list.index\<close>: the first position of the value, \<^verbatim>\<open>ValueError\<close> (here
  \<^verbatim>\<open>None\<close>) when the list does not hold it.\<close>

fun index_of :: "'a \<Rightarrow> 'a list \<Rightarrow> nat option" where
  "index_of x [] = None"
| "index_of x (y # ys) = (if x = y then Some 0 else map_option Suc (index_of x ys))"

text \<open>
  Resuming: with a pointer that is in the list, the identifiers after its first
  occurrence; with one that is not, a warning and the whole list.
\<close>

definition resume_ids :: "string option \<Rightarrow> string list \<Rightarrow> world \<Rightarrow> string list \<times> world" where
  "resume_ids last_pointer wikidata_ids w =
     (case last_pointer of
        None \<Rightarrow> (wikidata_ids, w)
      | Some p \<Rightarrow>
          if p = [] then (wikidata_ids, w)
          else (case index_of p wikidata_ids of
                  Some last_index \<Rightarrow> (drop (last_index + 1) wikidata_ids, w)
                | None \<Rightarrow> (wikidata_ids, logmsg (Pointer_not_found p) w)))"

text \<open>
  The body of the loop for one identifier; its variables are \<^verbatim>\<open>all_results\<close>,
  \<^verbatim>\<open>batch_count\<close> and the world.
\<close>

fun fetch_id ::
  "(nat \<Rightarrow> query \<Rightarrow> binding list response) \<Rightarrow> string \<Rightarrow> dataframe list \<times> nat \<times> world
     \<Rightarrow> (dataframe list \<times> nat \<times> world) flow" where
  "fetch_id net wikidata_id (all_results, batch_count, w) =
     (case query_wikidata net (Person_query wikidata_id) MAX_RETRIES w of
        (Inl e, w1) \<Rightarrow> Raise e (all_results, batch_count, w1)
      | (Inr None, w1) \<Rightarrow> Continue (all_results, batch_count, logmsg (Failed_to_fetch_id wikidata_id) w1)
      | (Inr (Some batch_results), w1) \<Rightarrow>
          if df_empty batch_results then Continue (all_results, batch_count, w1)
          else (let all_results1 = all_results @ [process_results batch_results];
                    batch_count1 = batch_count + 1;
                    w2 = w1\<lparr>pointer_file := save_pointer wikidata_id (pointer_file w1)\<rparr>
                in if batch_count1 mod SAVE_EVERY_N_BATCHES_ids = 0
                   then Continue ([], batch_count1, w2\<lparr>snapshots := snapshots w2 @ [all_results1]\<rparr>)
                   else Continue (all_results1, batch_count1, w2)))"

fun fetch_ids ::
  "(nat \<Rightarrow> query \<Rightarrow> binding list response) \<Rightarrow> string list \<Rightarrow> dataframe list \<times> nat \<times> world
     \<Rightarrow> (dataframe list \<times> nat \<times> world) outcome" where
  "fetch_ids net [] s = Finished s"
| "fetch_ids net (wikidata_id # rest) s =
     (case fetch_id net wikidata_id s of
        Continue s1 \<Rightarrow> fetch_ids net rest s1
      | Break s1 \<Rightarrow> Finished s1
      | Return s1 \<Rightarrow> Returned s1
      | Raise e s1 \<Rightarrow> Raised e s1)"

text \<open>What follows the loop: the final results, or a warning when there are none.\<close>

definition save_final :: "(dataframe list \<times> nat \<times> world) outcome \<Rightarrow> world outcome" where
  "save_final r =
     (case r of
        Finished (all_results, batch_count, w) \<Rightarrow>
          Finished (if all_results \<noteq> [] then w\<lparr>final_output := Some all_results\<rparr>
                    else logmsg No_data_fetched w)
      | Returned (all_results, batch_count, w) \<Rightarrow> Returned w
      | Raised e (all_results, batch_count, w) \<Rightarrow> Raised e w)"

definition fetch_data_for_ids ::
  "(nat \<Rightarrow> query \<Rightarrow> binding list response) \<Rightarrow> ids_file \<Rightarrow> world \<Rightarrow> world outcome" where
  "fetch_data_for_ids net file w =
     (case file of
        File_missing \<Rightarrow> Returned (logmsg File_not_found w)
      | Read_error e \<Rightarrow> Returned (logmsg (Error_reading_csv e) w)
      | Columns cs \<Rightarrow>
          (case map_of cs ''wikidata_id'' of
             None \<Rightarrow> Returned (logmsg Missing_id_column w)
           | Some col \<Rightarrow>
               if ids_of_column col = [] then Returned (logmsg No_ids_found w)
               else (case load_pointer_missing (pointer_file w) of
                       (last_pointer, msgs) \<Rightarrow>
                         (case resume_ids last_pointer (ids_of_column col) (w\<lparr>logged := logged w @ msgs\<rparr>) of
                            (wikidata_ids, w1) \<Rightarrow> save_final (fetch_ids net wikidata_ids ([], 0, w1))))))"

section \<open>The batch loop over windows of birth years\<close>

text \<open>\<^verbatim>\<open>wiki_birth.py\<close> and \<^verbatim>\<open>wiki_german_de.py\<close>: the constants of the module.\<close>

definition BATCH_SIZE :: nat where
  "BATCH_SIZE = 500"

definition SAVE_EVERY_N_BATCHES :: nat where
  "SAVE_EVERY_N_BATCHES = 20"

text \<open>Truth value of a cell in a condition, \<^verbatim>\<open>pd.notna\<close>, and \<^verbatim>\<open>str()\<close> as an
  f-string applies it. Python's text for a dictionary is a parameter.\<close>

definition truthy :: "cell \<Rightarrow> bool" where
  "truthy x = (case x of CNone \<Rightarrow> False | CNaN \<Rightarrow> True | CStr s \<Rightarrow> s \<noteq> [] | CDict kvs \<Rightarrow> kvs \<noteq> [])"

definition notna :: "cell \<Rightarrow> bool" where
  "notna x = (case x of CNone \<Rightarrow> False | CNaN \<Rightarrow> False | _ \<Rightarrow> True)"

definition py_str :: "((string \<times> cell) list \<Rightarrow> string) \<Rightarrow> cell \<Rightarrow> string" where
  "py_str dict_str x =
     (case x of CNone \<Rightarrow> ''None'' | CNaN \<Rightarrow> ''nan'' | CStr s \<Rightarrow> s | CDict kvs \<Rightarrow> dict_str kvs)"

text \<open>\<^verbatim>\<open>df[c].iloc[-1]\<close>: \<^verbatim>\<open>KeyError\<close> without the column.\<close>

definition iloc_last :: "dataframe \<Rightarrow> string \<Rightarrow> py_error + cell" where
  "iloc_last d c =
     (case column d c of
        None \<Rightarrow> Inl KeyError
      | Some ser \<Rightarrow> if ser = [] then Inl IndexError else Inr (last ser))"

text \<open>The variables of \<^verbatim>\<open>fetch_data\<close> and the world.\<close>

record fetch_state =
  all_results :: "dataframe list"
  batch_count :: nat
  last_birthdate :: cell
  last_person :: cell
  env :: world

text \<open>
  \<^verbatim>\<open>(None, None) if not last_pointer else last_pointer.split("|")\<close>, unpacked into
  two variables: \<^verbatim>\<open>ValueError\<close> unless the pointer has exactly one separator.
\<close>

definition split_pointer :: "string option \<Rightarrow> py_error + cell \<times> cell" where
  "split_pointer last_pointer =
     (case last_pointer of
        None \<Rightarrow> Inr (CNone, CNone)
      | Some s \<Rightarrow>
          if s = [] then Inr (CNone, CNone)
          else (case split_on (CHR ''|'') s of
                  [a, b] \<Rightarrow> Inr (CStr a, CStr b)
                | _ \<Rightarrow> Inl ValueError))"

text \<open>The query of a page: the filter is there when both variables are true.\<close>

definition page_query :: "int \<Rightarrow> fetch_state \<Rightarrow> query" where
  "page_query start_year st =
     Window_query start_year (start_year + 19)
       (if truthy (last_birthdate st) \<and> truthy (last_person st)
        then Some (last_birthdate st, last_person st) else None)"

text \<open>
  The \<^verbatim>\<open>try\<close> block that extracts the pointer from the last record, in
  \<^verbatim>\<open>wiki_birth.py\<close>: the pointer is saved when both values pass \<^verbatim>\<open>pd.notna\<close>,
  a warning is logged otherwise; an exception is logged and ends the loop.
\<close>

definition update_pointer_birth ::
  "((string \<times> cell) list \<Rightarrow> string) \<Rightarrow> dataframe \<Rightarrow> fetch_state \<Rightarrow> fetch_state flow" where
  "update_pointer_birth dict_str batch_results st =
     (case iloc_last batch_results ''birthdate'' of
        Inl e \<Rightarrow> Break (st\<lparr>env := logmsg (Error_extracting_pointer e) (env st)\<rparr>)
      | Inr b \<Rightarrow>
          (case iloc_last batch_results ''person'' of
             Inl e \<Rightarrow> Break (st\<lparr>last_birthdate := b, env := logmsg (Error_extracting_pointer e) (env st)\<rparr>)
           | Inr p \<Rightarrow>
               if notna b \<and> notna p
               then Continue (st\<lparr>last_birthdate := b, last_person := p,
                      env := (env st)\<lparr>pointer_file :=
                        save_pointer (py_str dict_str b @ ''|'' @ py_str dict_str p) (pointer_file (env st))\<rparr>\<rparr>)
               else Continue (st\<lparr>last_birthdate := b, last_person := p,
                      env := logmsg Missing_or_invalid_pointer_fields (env st)\<rparr>)))"

text \<open>The same block in \<^verbatim>\<open>wiki_german_de.py\<close>: the pointer is saved without a check.\<close>

definition update_pointer_german ::
  "((string \<times> cell) list \<Rightarrow> string) \<Rightarrow> dataframe \<Rightarrow> fetch_state \<Rightarrow> fetch_state flow" where
  "update_pointer_german dict_str batch_results st =
     (case iloc_last batch_results ''birthdate'' of
        Inl e \<Rightarrow> Break (st\<lparr>env := logmsg (Error_extracting_pointer e) (env st)\<rparr>)
      | Inr b \<Rightarrow>
          (case iloc_last batch_results ''person'' of
             Inl e \<Rightarrow> Break (st\<lparr>last_birthdate := b, env := logmsg (Error_extracting_pointer e) (env st)\<rparr>)
           | Inr p \<Rightarrow>
               Continue (st\<lparr>last_birthdate := b, last_person := p,
                 env := (env st)\<lparr>pointer_file :=
                   save_pointer (py_str dict_str b @ ''|'' @ py_str dict_str p) (pointer_file (env st))\<rparr>\<rparr>)))"

text \<open>
  The rest of the body after the pointer: the batch is appended, the counter incremented,
  every \<^verbatim>\<open>SAVE_EVERY_N_BATCHES\<close> batches the buffer is written and cleared, and a
  batch shorter than \<^verbatim>\<open>BATCH_SIZE\<close> ends the loop.
\<close>

definition accumulate :: "dataframe \<Rightarrow> fetch_state \<Rightarrow> fetch_state flow" where
  "accumulate batch_results st =
     (let st1 = st\<lparr>all_results := all_results st @ [batch_results],
                    batch_count := batch_count st + 1\<rparr>;
          st2 = (if batch_count st1 mod SAVE_EVERY_N_BATCHES = 0
                 then st1\<lparr>all_results := [],
                          env := (env st1)\<lparr>snapshots := snapshots (env st1) @ [all_results st1]\<rparr>\<rparr>
                 else st1)
      in if nrows batch_results < BATCH_SIZE then Break st2 else Continue st2)"

text \<open>
  One pass through the body of \<^verbatim>\<open>while True\<close>. The block that updates the pointer is
  a parameter: \<^verbatim>\<open>update_pointer_birth\<close> or \<^verbatim>\<open>update_pointer_german\<close>.
\<close>

definition page_step ::
  "(dataframe \<Rightarrow> fetch_state \<Rightarrow> fetch_state flow) \<Rightarrow> (nat \<Rightarrow> query \<Rightarrow> binding list response)
     \<Rightarrow> int \<Rightarrow> fetch_state \<Rightarrow> fetch_state flow" where
  "page_step update_pointer net start_year st =
     (case query_wikidata net (page_query start_year st) MAX_RETRIES (env st) of
        (Inl e, w) \<Rightarrow> Raise e (st\<lparr>env := w\<rparr>)
      | (Inr None, w) \<Rightarrow> Return (st\<lparr>env := logmsg Too_many_failures w\<rparr>)
      | (Inr (Some batch_results), w) \<Rightarrow>
          if df_empty batch_results then Break (st\<lparr>env := w\<rparr>)
          else (case update_pointer (process_results batch_results) (st\<lparr>env := w\<rparr>) of
                  Continue st1 \<Rightarrow> accumulate (process_results batch_results) st1
                | Break st1 \<Rightarrow> Break st1
                | Return st1 \<Rightarrow> Return st1
                | Raise e st1 \<Rightarrow> Raise e st1))"

text \<open>The loop \<^verbatim>\<open>while True\<close>: it need not end, and then has no value.\<close>

partial_function (option) page_loop ::
  "(dataframe \<Rightarrow> fetch_state \<Rightarrow> fetch_state flow) \<Rightarrow> (nat \<Rightarrow> query \<Rightarrow> binding list response)
     \<Rightarrow> int \<Rightarrow> fetch_state \<Rightarrow> fetch_state outcome option" where
  "page_loop update_pointer net start_year st =
     (case page_step update_pointer net start_year st of
        Continue st1 \<Rightarrow> page_loop update_pointer net start_year st1
      | Break st1 \<Rightarrow> Some (Finished st1)
      | Return st1 \<Rightarrow> Some (Returned st1)
      | Raise e st1 \<Rightarrow> Some (Raised e st1))"

text \<open>The loop over the windows: each loads the pointer, then pages through the window.\<close>

fun fetch_years ::
  "(dataframe \<Rightarrow> fetch_state \<Rightarrow> fetch_state flow) \<Rightarrow> (nat \<Rightarrow> query \<Rightarrow> binding list response)
     \<Rightarrow> int list \<Rightarrow> fetch_state \<Rightarrow> fetch_state outcome option" where
  "fetch_years update_pointer net [] st = Some (Finished st)"
| "fetch_years update_pointer net (start_year # rest) st =
     (case load_pointer (pointer_file (env st)) of
        Inl e \<Rightarrow> Some (Raised e st)
      | Inr last_pointer \<Rightarrow>
          (case split_pointer last_pointer of
             Inl e \<Rightarrow> Some (Raised e st)
           | Inr (b, p) \<Rightarrow>
               (case page_loop update_pointer net start_year (st\<lparr>last_birthdate := b, last_person := p\<rparr>) of
                  None \<Rightarrow> None
                | Some (Finished st1) \<Rightarrow> fetch_years update_pointer net rest st1
                | Some (Returned st1) \<Rightarrow> Some (Returned st1)
                | Some (Raised e st1) \<Rightarrow> Some (Raised e st1))))"

text \<open>\<^verbatim>\<open>range(1525, 2026, 20)\<close>.\<close>

definition start_years :: "int list" where
  "start_years = map (\<lambda>k. 1525 + 20 * int k) [0..<26]"

text \<open>
  \<^verbatim>\<open>fetch_data\<close>: the loop over the windows, then the final results are written when
  the buffer is not empty. \<^verbatim>\<open>return\<close> inside the loop leaves the function at once.
\<close>

definition fetch_data ::
  "(dataframe \<Rightarrow> fetch_state \<Rightarrow> fetch_state flow) \<Rightarrow> (nat \<Rightarrow> query \<Rightarrow> binding list response)
     \<Rightarrow> world \<Rightarrow> world outcome option" where
  "fetch_data update_pointer net w =
     (case fetch_years update_pointer net start_years
             \<lparr>all_results = [], batch_count = 0, last_birthdate = CNone, last_person = CNone, env = w\<rparr> of
        None \<Rightarrow> None
      | Some (Finished st) \<Rightarrow>
          Some (Finished (if all_results st \<noteq> []
                          then (env st)\<lparr>final_output := Some (all_results st)\<rparr>
                          else logmsg No_data_fetched (env st)))
      | Some (Returned st) \<Rightarrow> Some (Returned (env st))
      | Some (Raised e st) \<Rightarrow> Some (Raised e (env st)))"

section \<open>The label writer\<close>






















section \<open>The enrichment script\<close>













section \<open>Auxiliary definitions\<close>

subsection \<open>For the statements and the proofs\<close>

text \<open>A function applied to the cells of the columns that a predicate selects, and one
  pass of the loop of \<^verbatim>\<open>process_results\<close>.\<close>

definition map_cols :: "(string \<Rightarrow> bool) \<Rightarrow> (cell \<Rightarrow> cell) \<Rightarrow> (string \<times> cell list) list \<Rightarrow> (string \<times> cell list) list" where
  "map_cols P f cs = map (\<lambda>(k, s). if P k then (k, map f s) else (k, s)) cs"

definition process_column :: "string \<Rightarrow> dataframe \<Rightarrow> dataframe" where
  "process_column col d =
     (case column d col of None \<Rightarrow> d | Some ser \<Rightarrow> set_column d col (map unwrap_value ser))"

text \<open>The state after the batch is appended and, when it is due, the buffer written.\<close>

definition accumulated :: "dataframe \<Rightarrow> fetch_state \<Rightarrow> fetch_state" where
  "accumulated batch_results st =
     (let st1 = st\<lparr>all_results := all_results st @ [batch_results],
                    batch_count := batch_count st + 1\<rparr>
      in if batch_count st1 mod SAVE_EVERY_N_BATCHES = 0
         then st1\<lparr>all_results := [],
                  env := (env st1)\<lparr>snapshots := snapshots (env st1) @ [all_results st1]\<rparr>\<rparr>
         else st1)"

text \<open>The state after \<open>n\<close> passes through a loop body that all reach the end of the body.\<close>

fun continues :: "nat \<Rightarrow> ('s \<Rightarrow> 's flow) \<Rightarrow> 's \<Rightarrow> 's option" where
  "continues 0 body s = Some s"
| "continues (Suc n) body s =
     (case body s of Continue s1 \<Rightarrow> continues n body s1 | _ \<Rightarrow> None)"




subsection \<open>Worlds, networks and inputs of the examples\<close>

text \<open>
  The empty world, a network on which every request fails, one that always answers with
  no records, and one whose third request is the first to succeed.
\<close>

definition world0 :: world where
  "world0 = \<lparr>pointer_file = Absent, requests = 0, snapshots = [], final_output = None, logged = []\<rparr>"



definition net_no_records :: "nat \<Rightarrow> 'q \<Rightarrow> 'r list response" where
  "net_no_records n q = Body []"


text \<open>
  For the examples: a text for dictionaries, the state in which \<^verbatim>\<open>fetch_data\<close>
  starts, one record of a response, and a network whose every answer is that record.
\<close>

definition dict_str0 :: "(string \<times> cell) list \<Rightarrow> string" where
  "dict_str0 kvs = ''{}''"

definition state0 :: fetch_state where
  "state0 = \<lparr>all_results = [], batch_count = 0, last_birthdate = CNone, last_person = CNone, env = world0\<rparr>"

definition record1 :: binding where
  "record1 = [(''person'', CDict [(''type'', CStr ''uri''), (''value'', CStr ''Q1'')]),
              (''birthdate'', CDict [(''type'', CStr ''literal''), (''value'', CStr ''1900'')])]"

definition net_one :: "nat \<Rightarrow> 'q \<Rightarrow> binding list response" where
  "net_one n q = Body [record1]"

text \<open>
  A network that fails for the person \<^verbatim>\<open>Q1\<close> and answers with one record for every
  other query, and one whose first request is answered and whose later requests fail.
\<close>

definition net_q1_down :: "nat \<Rightarrow> query \<Rightarrow> binding list response" where
  "net_q1_down n q = (if q = Person_query ''Q1'' then Request_exception else Body [record1])"

definition net_first_only :: "nat \<Rightarrow> query \<Rightarrow> binding list response" where
  "net_first_only n q = (if n = 0 then Body [record1] else Request_exception)"

text \<open>
  A record whose birth date has no value, and a network whose every answer is a full
  page of such records.
\<close>

definition record_no_birthdate :: binding where
  "record_no_birthdate = [(''person'', CDict [(''type'', CStr ''uri''), (''value'', CStr ''Q1'')]),
                          (''birthdate'', CDict [(''type'', CStr ''literal'')])]"

definition record_person_only :: binding where
  "record_person_only = [(''person'', CDict [(''type'', CStr ''uri''), (''value'', CStr ''Q1'')])]"

definition net_person_only :: "nat \<Rightarrow> query \<Rightarrow> binding list response" where
  "net_person_only n q = Body [record_person_only]"

definition net_no_birthdate :: "nat \<Rightarrow> query \<Rightarrow> binding list response" where
  "net_no_birthdate n q = Body [record_no_birthdate]"

definition bad_page :: "binding list" where
  "bad_page = replicate BATCH_SIZE record_no_birthdate"

definition net_bad_page :: "nat \<Rightarrow> query \<Rightarrow> binding list response" where
  "net_bad_page n q = Body bad_page"

text \<open>A record without a person, and a network whose every answer is that record.\<close>

definition record_birthdate_only :: binding where
  "record_birthdate_only = [(''birthdate'', CDict [(''type'', CStr ''literal''), (''value'', CStr ''1900'')])]"

definition net_birthdate_only :: "nat \<Rightarrow> query \<Rightarrow> binding list response" where
  "net_birthdate_only n q = Body [record_birthdate_only]"















section \<open>Properties of the checkpoint store\<close>

lemma fold_save_pointer:
  "cs \<noteq> [] \<Longrightarrow> accessible f \<Longrightarrow> fold save_pointer cs f = Readable (last cs)"
proof (induction cs arbitrary: f)
  case Nil
  then show ?case by simp
next
  case (Cons c cs)
  have acc: "accessible (save_pointer c f)"
    using Cons.prems(2) by (cases f) (simp_all add: accessible_def save_pointer_def)
  show ?case
  proof (cases "cs = []")
    case True
    then show ?thesis
      using Cons.prems(2) by (cases f) (simp_all add: accessible_def save_pointer_def)
  next
    case False
    then show ?thesis
      using Cons.IH [OF False acc] by simp
  qed
qed

lemma universal_newlines_no_cr: "CHR 0x0D \<notin> set s \<Longrightarrow> universal_newlines s = s"
  by (induction s rule: universal_newlines.induct) auto

lemma dropWhile_hd: "s \<noteq> [] \<Longrightarrow> \<not> P (hd s) \<Longrightarrow> dropWhile P s = s"
  by (cases s) auto

lemma strip_unchanged:
  assumes "s = [] \<or> (\<not> py_isspace (hd s) \<and> \<not> py_isspace (last s))"
  shows "strip s = s"
proof (cases "s = []")
  case True
  then show ?thesis by (simp add: strip_def)
next
  case False
  then have h: "\<not> py_isspace (hd s)" and l: "\<not> py_isspace (last s)" using assms by auto
  have a: "dropWhile py_isspace s = s" using False h by (rule dropWhile_hd)
  have r: "rev s \<noteq> []" using False by simp
  have "hd (rev s) = last s" using False by (simp add: hd_rev)
  then have "\<not> py_isspace (hd (rev s))" using l by simp
  then have b: "dropWhile py_isspace (rev s) = rev s" using r by (simp add: dropWhile_hd)
  show ?thesis by (simp add: strip_def a b)
qed

text \<open>
  \<^verbatim>\<open>strip\<close> removes the no-break space and the next-line character as it removes
  the ASCII blanks.
\<close>

lemma strip_no_break_space: "strip (''Q2'' @ [CHR 0xA0]) = ''Q2''"
  by (simp add: strip_def py_isspace_def)

lemma strip_next_line: "strip ([CHR 0x85] @ ''Q2'' @ [CHR 0x0A]) = ''Q2''"
  by (simp add: strip_def py_isspace_def)

text \<open>
  C4, as the specification states it: after any sequence of saves, load returns exactly
  the last cursor saved. It fails for a cursor that ends in a blank: \<^verbatim>\<open>load_pointer\<close>
  returns \<^verbatim>\<open>f.read().strip()\<close>.
\<close>

theorem load_after_save_not_exact:
  "load_pointer (fold save_pointer [''Q1'', ''Q2 ''] Absent) \<noteq> Inr (Some (last [''Q1'', ''Q2 '']))"
  by (simp add: load_pointer_def save_pointer_def strip_def py_isspace_def)

text \<open>
  C4, amended: after a non-empty sequence of saves to a store whose file is absent or
  readable, both versions of load return the last cursor saved as a text-mode read and
  \<^verbatim>\<open>strip()\<close> give it back (line endings normalised, surrounding whitespace
  removed), whatever was saved before; this is exactly the last cursor when it holds no
  carriage return and neither starts nor ends with a whitespace character; and load from
  a store with no file returns absent.
\<close>

theorem load_after_saves_last_write_wins:
  assumes "cs \<noteq> []" and "accessible f"
  shows "load_pointer (fold save_pointer cs f) = Inr (Some (strip (universal_newlines (last cs))))
       \<and> fst (load_pointer_missing (fold save_pointer cs f)) = Some (strip (universal_newlines (last cs)))
       \<and> (CHR 0x0D \<notin> set (last cs)
            \<and> (last cs = [] \<or> (\<not> py_isspace (hd (last cs)) \<and> \<not> py_isspace (last (last cs))))
          \<longrightarrow> load_pointer (fold save_pointer cs f) = Inr (Some (last cs))
            \<and> fst (load_pointer_missing (fold save_pointer cs f)) = Some (last cs))
       \<and> load_pointer Absent = Inr None
       \<and> fst (load_pointer_missing Absent) = None"
proof -
  have ld: "load_pointer (fold save_pointer cs f) = Inr (Some (strip (universal_newlines (last cs))))"
    using fold_save_pointer [OF assms] by (simp add: load_pointer_def)
  have lm: "fst (load_pointer_missing (fold save_pointer cs f)) = Some (strip (universal_newlines (last cs)))"
    using fold_save_pointer [OF assms] by (simp add: load_pointer_missing_def)
  have ex: "strip (universal_newlines (last cs)) = last cs"
    if "CHR 0x0D \<notin> set (last cs)"
      and "last cs = [] \<or> (\<not> py_isspace (hd (last cs)) \<and> \<not> py_isspace (last (last cs)))"
    using that by (simp add: universal_newlines_no_cr strip_unchanged)
  have ab: "load_pointer Absent = Inr None \<and> fst (load_pointer_missing Absent) = None"
    by (simp add: load_pointer_def load_pointer_missing_def)
  show ?thesis
    using ld lm ex ab by simp
qed

theorem load_after_saves_last_write_wins_witness:
  "load_pointer (fold save_pointer [''Q1'', ''Q7'', ''Q2 ''] (Readable ''Q0'')) = Inr (Some ''Q2'')
   \<and> fst (load_pointer_missing (fold save_pointer [''Q1'', ''Q7'', ''Q2 ''] (Readable ''Q0''))) = Some ''Q2''
   \<and> load_pointer (fold save_pointer [''Q1'', ''Q2'' @ [CHR 0xA0]] Absent) = Inr (Some ''Q2'')
   \<and> load_pointer (fold save_pointer [''Q1 '', ''1900|Q5''] Absent) = Inr (Some ''1900|Q5'')"
proof -
  have ne: "[''Q1'', ''Q7'', ''Q2 ''] \<noteq> ([] :: string list)" by simp
  have acc: "accessible (Readable ''Q0'')" by (simp add: accessible_def)
  have st: "strip (universal_newlines (last [''Q1'', ''Q7'', ''Q2 ''])) = ''Q2''"
    by (simp add: strip_def py_isspace_def)
  have ne2: "[''Q1'', ''Q2'' @ [CHR 0xA0]] \<noteq> ([] :: string list)" by simp
  have acc2: "accessible Absent" by (simp add: accessible_def)
  have st2: "strip (universal_newlines (last [''Q1'', ''Q2'' @ [CHR 0xA0]])) = ''Q2''"
    by (simp add: strip_def py_isspace_def)
  have ne3: "[''Q1 '', ''1900|Q5''] \<noteq> ([] :: string list)" by simp
  have plain: "CHR 0x0D \<notin> set (last [''Q1 '', ''1900|Q5''])
      \<and> (last [''Q1 '', ''1900|Q5''] = []
         \<or> (\<not> py_isspace (hd (last [''Q1 '', ''1900|Q5'']))
            \<and> \<not> py_isspace (last (last [''Q1 '', ''1900|Q5'']))))"
    by (simp add: py_isspace_def)
  have l3: "last [''Q1 '', ''1900|Q5''] = ''1900|Q5''" by simp
  note i1 = load_after_saves_last_write_wins [OF ne acc]
  note i2 = load_after_saves_last_write_wins [OF ne2 acc2]
  note i3 = load_after_saves_last_write_wins [OF ne3 acc2]
  have a: "load_pointer (fold save_pointer [''Q1'', ''Q7'', ''Q2 ''] (Readable ''Q0'')) = Inr (Some ''Q2'')"
    using conjunct1 [OF i1] by (simp only: st)
  have b: "fst (load_pointer_missing (fold save_pointer [''Q1'', ''Q7'', ''Q2 ''] (Readable ''Q0''))) = Some ''Q2''"
    using conjunct1 [OF conjunct2 [OF i1]] by (simp only: st)
  have c: "load_pointer (fold save_pointer [''Q1'', ''Q2'' @ [CHR 0xA0]] Absent) = Inr (Some ''Q2'')"
    using conjunct1 [OF i2] by (simp only: st2)
  have "load_pointer (fold save_pointer [''Q1 '', ''1900|Q5''] Absent) = Inr (Some (last [''Q1 '', ''1900|Q5'']))"
    using conjunct1 [OF conjunct2 [OF conjunct2 [OF i3]]] plain by blast
  then have d: "load_pointer (fold save_pointer [''Q1 '', ''1900|Q5''] Absent) = Inr (Some ''1900|Q5'')"
    by (simp only: l3)
  show ?thesis
    using a b c d by blast
qed

text \<open>
  C5: load on a file that exists and cannot be read. \<^verbatim>\<open>missing.py\<close> catches the
  exception and returns \<^verbatim>\<open>None\<close>; \<^verbatim>\<open>wiki_birth.py\<close> and
  \<^verbatim>\<open>wiki_german_de.py\<close> have no handler, and the exception reaches the caller.
\<close>

theorem load_pointer_unreadable_raises:
  "load_pointer (Unreadable s) = Inl OSError \<and> fst (load_pointer_missing (Unreadable s)) = None"
  by (simp add: load_pointer_def load_pointer_missing_def)

lemma load_pointer_missing_total:
  "fst (load_pointer_missing f) = None \<or> (\<exists>p. fst (load_pointer_missing f) = Some p)"
  by (cases "fst (load_pointer_missing f)") simp_all

section \<open>Properties of the normalizer\<close>

lemma add_keys_distinct: "distinct seen \<Longrightarrow> distinct (add_keys seen ks)"
  by (induction ks arbitrary: seen) auto

lemma record_keys_distinct_aux:
  "distinct seen \<Longrightarrow> distinct (fold (\<lambda>r seen. add_keys seen (map fst r)) rs seen)"
  by (induction rs arbitrary: seen) (auto simp: add_keys_distinct)

lemma record_keys_distinct: "distinct (record_keys rs)"
  by (simp add: record_keys_def record_keys_distinct_aux)

lemma map_cols_fst: "map fst (map_cols P f cs) = map fst cs"
  by (induction cs) (auto simp: map_cols_def)

lemma map_cols_none: "(\<And>k. k \<in> fst ` set cs \<Longrightarrow> \<not> P k) \<Longrightarrow> map_cols P f cs = cs"
  by (induction cs) (auto simp: map_cols_def)

lemma map_cols_cong: "(\<And>k. k \<in> fst ` set cs \<Longrightarrow> P k = Q k) \<Longrightarrow> map_cols P f cs = map_cols Q f cs"
  by (induction cs) (auto simp: map_cols_def)

lemma map_cols_twice:
  "(\<And>k. \<not> (P k \<and> Q k)) \<Longrightarrow> map_cols P f (map_cols Q f cs) = map_cols (\<lambda>k. P k \<or> Q k) f cs"
  by (induction cs) (auto simp: map_cols_def)

lemma set_column_eq:
  assumes "distinct (map fst cs)" and "(c, ser) \<in> set cs"
  shows "map (\<lambda>(k, s). if k = c then (k, map f ser) else (k, s)) cs = map_cols (\<lambda>k. k = c) f cs"
proof -
  have "\<And>k s. (k, s) \<in> set cs \<Longrightarrow> k = c \<Longrightarrow> s = ser"
    using assms by (meson eq_key_imp_eq_value)
  then show ?thesis
    unfolding map_cols_def by (intro map_cong) auto
qed

lemma process_column_cols:
  assumes "distinct (map fst (cols d))"
  shows "process_column c d = d\<lparr>cols := map_cols (\<lambda>k. k = c) unwrap_value (cols d)\<rparr>"
proof (cases "column d c")
  case None
  then have "c \<notin> fst ` set (cols d)"
    by (simp add: column_def map_of_eq_None_iff)
  then have "map_cols (\<lambda>k. k = c) unwrap_value (cols d) = cols d"
    by (intro map_cols_none) auto
  with None show ?thesis by (simp add: process_column_def)
next
  case (Some ser)
  then have mem: "(c, ser) \<in> set (cols d)"
    by (simp add: column_def map_of_SomeD)
  show ?thesis
    using Some set_column_eq [OF assms mem, of unwrap_value]
    by (simp add: process_column_def set_column_def)
qed

lemma fold_process_column:
  "distinct ks \<Longrightarrow> distinct (map fst (cols d)) \<Longrightarrow>
   fold process_column ks d = d\<lparr>cols := map_cols (\<lambda>k. k \<in> set ks) unwrap_value (cols d)\<rparr>"
proof (induction ks arbitrary: d)
  case Nil
  have "map_cols (\<lambda>k. False) unwrap_value (cols d) = cols d"
    by (intro map_cols_none) auto
  then show ?case by simp
next
  case (Cons k ks)
  let ?d = "d\<lparr>cols := map_cols (\<lambda>j. j = k) unwrap_value (cols d)\<rparr>"
  have step: "process_column k d = ?d"
    using Cons.prems(2) by (rule process_column_cols)
  have dist: "distinct (map fst (cols ?d))"
    using Cons.prems(2) by (simp add: map_cols_fst)
  have "fold process_column ks ?d = ?d\<lparr>cols := map_cols (\<lambda>j. j \<in> set ks) unwrap_value (cols ?d)\<rparr>"
    using Cons.prems(1) dist by (intro Cons.IH) auto
  moreover have "map_cols (\<lambda>j. j \<in> set ks) unwrap_value (map_cols (\<lambda>j. j = k) unwrap_value (cols d))
      = map_cols (\<lambda>j. j \<in> set ks \<or> j = k) unwrap_value (cols d)"
    using Cons.prems(1) by (intro map_cols_twice) auto
  moreover have "map_cols (\<lambda>j. j \<in> set ks \<or> j = k) unwrap_value (cols d)
      = map_cols (\<lambda>j. j \<in> set (k # ks)) unwrap_value (cols d)"
    by (intro map_cols_cong) auto
  ultimately show ?case
    using step by simp
qed

lemma process_results_map:
  assumes "distinct (map fst (cols d))"
  shows "process_results d = d\<lparr>cols := map (\<lambda>(k, s). (k, map unwrap_value s)) (cols d)\<rparr>"
proof -
  have "process_results d = fold process_column (map fst (cols d)) d"
    by (simp add: process_results_def process_column_def [abs_def])
  also have "\<dots> = d\<lparr>cols := map_cols (\<lambda>k. k \<in> set (map fst (cols d))) unwrap_value (cols d)\<rparr>"
    using assms by (intro fold_process_column)
  also have "map_cols (\<lambda>k. k \<in> set (map fst (cols d))) unwrap_value (cols d)
      = map (\<lambda>(k, s). (k, map unwrap_value s)) (cols d)"
    unfolding map_cols_def by (intro map_cong refl) force
  finally show ?thesis .
qed

lemma unwrap_flat: "flat_cell x \<Longrightarrow> unwrap_value (unwrap_value x) = unwrap_value x"
  by (auto simp: flat_cell_def unwrap_value_def split: cell.splits option.splits)

lemma from_records_cells:
  assumes "flat_batch rs" and "(k, s) \<in> set (cols (from_records rs))" and "x \<in> set s"
  shows "flat_cell x"
proof -
  from assms(2,3) obtain r where r: "r \<in> set rs" and x: "x = (case map_of r k of None \<Rightarrow> CNaN | Some v \<Rightarrow> v)"
    by (auto simp: from_records_def)
  show ?thesis
  proof (cases "map_of r k")
    case None
    with x show ?thesis by (simp add: flat_cell_def)
  next
    case (Some v)
    then have "(k, v) \<in> set r" by (rule map_of_SomeD)
    with assms(1) r have "flat_cell v"
      by (force simp: flat_batch_def list_all_iff)
    with x Some show ?thesis by simp
  qed
qed

text \<open>
  C8: for every raw batch whose fields are plain scalars or envelopes around scalars,
  normalizing the normalized batch gives the normalized batch.
\<close>

theorem process_results_idempotent:
  assumes "flat_batch rs"
  shows "process_results (process_results (from_records rs)) = process_results (from_records rs)"
proof -
  let ?d = "from_records rs"
  have dist: "distinct (map fst (cols ?d))"
    by (simp add: from_records_def comp_def record_keys_distinct)
  have once: "process_results ?d = ?d\<lparr>cols := map (\<lambda>(k, s). (k, map unwrap_value s)) (cols ?d)\<rparr>"
    using dist by (rule process_results_map)
  have dist': "distinct (map fst (cols (process_results ?d)))"
    using dist by (simp add: once comp_def case_prod_unfold)
  have twice: "process_results (process_results ?d)
      = ?d\<lparr>cols := map (\<lambda>(k, s). (k, map unwrap_value s)) (map (\<lambda>(k, s). (k, map unwrap_value s)) (cols ?d))\<rparr>"
    using process_results_map [OF dist'] by (simp add: once)
  have "map (\<lambda>(k, s). (k, map unwrap_value s)) (map (\<lambda>(k, s). (k, map unwrap_value s)) (cols ?d))
      = map (\<lambda>(k, s). (k, map unwrap_value s)) (cols ?d)"
    using from_records_cells [OF assms] by (auto simp: unwrap_flat)
  then have "process_results (process_results ?d)
      = ?d\<lparr>cols := map (\<lambda>(k, s). (k, map unwrap_value s)) (cols ?d)\<rparr>"
    by (simp only: twice)
  then show ?thesis
    by (simp only: once)
qed

theorem process_results_idempotent_witness:
  "process_results (process_results (from_records
      [[(''person'', CDict [(''type'', CStr ''uri''), (''value'', CStr ''Q1'')]), (''birthdate'', CStr ''1900'')],
       [(''person'', CDict [(''type'', CStr ''uri'')]), (''label'', CNone)]]))
   = \<lparr>nrows = 2,
      cols = [(''person'', [CStr ''Q1'', CNone]),
              (''birthdate'', [CStr ''1900'', CNaN]),
              (''label'', [CNaN, CNone])]\<rparr>"
proof -
  let ?rs = "[[(''person'', CDict [(''type'', CStr ''uri''), (''value'', CStr ''Q1'')]), (''birthdate'', CStr ''1900'')],
       [(''person'', CDict [(''type'', CStr ''uri'')]), (''label'', CNone)]]"
  have flat: "flat_batch ?rs"
    by (simp add: flat_batch_def flat_cell_def)
  have once: "process_results (from_records ?rs)
    = \<lparr>nrows = 2,
      cols = [(''person'', [CStr ''Q1'', CNone]),
              (''birthdate'', [CStr ''1900'', CNaN]),
              (''label'', [CNaN, CNone])]\<rparr>"
    by (simp add: process_results_def from_records_def record_keys_def column_def
        set_column_def unwrap_value_def)
  show ?thesis
    using process_results_idempotent [OF flat] once by simp
qed

text \<open>
  The hypothesis is needed: an envelope whose \<^verbatim>\<open>value\<close> is itself an envelope is
  unwrapped once by each pass.
\<close>

lemma process_results_nested_envelope:
  "process_results (process_results (from_records [[(''a'', CDict [(''value'', CDict [(''value'', CStr ''x'')])])]]))
   \<noteq> process_results (from_records [[(''a'', CDict [(''value'', CDict [(''value'', CStr ''x'')])])]])"
  by (simp add: process_results_def from_records_def record_keys_def column_def
      set_column_def unwrap_value_def)

section \<open>Properties of the fetcher\<close>

lemma query_attempts_frame:
  "query_attempts net q mr as w = (r, w') \<Longrightarrow>
   pointer_file w' = pointer_file w \<and> snapshots w' = snapshots w \<and> final_output w' = final_output w"
  by (induction as arbitrary: w) (auto simp: logmsg_def split: response.splits)

lemma query_wikidata_frame:
  "query_wikidata net q mr w = (r, w') \<Longrightarrow>
   pointer_file w' = pointer_file w \<and> snapshots w' = snapshots w \<and> final_output w' = final_output w"
  unfolding query_wikidata_def by (rule query_attempts_frame)

lemma query_attempts_None_iff:
  "(fst (query_attempts net q mr as w) = Inr None) =
   (\<forall>i<length as. net (requests w + i) q = Request_exception)"
proof (induction as arbitrary: w)
  case Nil
  then show ?case by simp
next
  case (Cons a as)
  show ?case
  proof (cases "net (requests w) q")
    case Request_exception
    then show ?thesis
      using Cons.IH [of "logmsg (Request_error (a + 1) mr) (w\<lparr>requests := Suc (requests w)\<rparr>)"]
      by (simp add: All_less_Suc2 logmsg_def)
  next
    case (Other_exception e)
    then have "\<not> (\<forall>i<length (a # as). net (requests w + i) q = Request_exception)"
      by (auto intro!: exI [of _ 0])
    with Other_exception show ?thesis by simp
  next
    case (Body rs)
    then have "\<not> (\<forall>i<length (a # as). net (requests w + i) q = Request_exception)"
      by (auto intro!: exI [of _ 0])
    with Body show ?thesis by simp
  qed
qed

lemma query_attempts_exhausted:
  "(\<forall>i<length as. net (requests w + i) q = Request_exception) \<Longrightarrow>
   query_attempts net q mr as w = (Inr None, w') \<Longrightarrow>
   requests w' = requests w + length as \<and> logged w' \<noteq> [] \<and> last (logged w') = Max_retries_reached"
proof (induction as arbitrary: w)
  case Nil
  then show ?case by (auto simp: logmsg_def)
next
  case (Cons a as)
  from Cons.prems(1) have h0: "net (requests w) q = Request_exception"
    by (metis add.right_neutral length_greater_0_conv list.distinct(1))
  from Cons.prems(1) have hs: "\<forall>i<length as. net (Suc (requests w) + i) q = Request_exception"
    by (simp add: All_less_Suc2)
  let ?w = "logmsg (Request_error (a + 1) mr) (w\<lparr>requests := Suc (requests w)\<rparr>)"
  have "query_attempts net q mr as ?w = (Inr None, w')"
    using Cons.prems(2) h0 by simp
  moreover have "\<forall>i<length as. net (requests ?w + i) q = Request_exception"
    using hs by (simp add: logmsg_def)
  ultimately have "requests w' = requests ?w + length as \<and> logged w' \<noteq> [] \<and> last (logged w') = Max_retries_reached"
    by (rule Cons.IH [rotated])
  then show ?case by (simp add: logmsg_def)
qed






section \<open>Properties of the batch loop over windows\<close>

lemma accumulate_eq:
  "accumulate b st = (if nrows b < BATCH_SIZE then Break (accumulated b st) else Continue (accumulated b st))"
  by (simp add: accumulate_def accumulated_def Let_def)

lemma accumulated_frame:
  "pointer_file (env (accumulated b st)) = pointer_file (env st)"
  "requests (env (accumulated b st)) = requests (env st)"
  "final_output (env (accumulated b st)) = final_output (env st)"
  by (simp_all add: accumulated_def Let_def)

lemma process_column_nrows: "nrows (process_column c d) = nrows d"
  by (simp add: process_column_def set_column_def split: option.splits)

lemma fold_process_column_nrows: "nrows (fold process_column ks d) = nrows d"
  by (induction ks arbitrary: d) (simp_all add: process_column_nrows)

lemma process_results_nrows: "nrows (process_results d) = nrows d"
proof -
  have "process_results d = fold process_column (map fst (cols d)) d"
    by (simp add: process_results_def process_column_def [abs_def])
  then show ?thesis by (simp add: fold_process_column_nrows)
qed

lemma page_step_empty:
  assumes "query_wikidata net (page_query y st) MAX_RETRIES (env st) = (Inr (Some df), w)"
    and "df_empty df"
  shows "page_step up net y st = Break (st\<lparr>env := w\<rparr>)"
  using assms by (simp add: page_step_def)

lemma page_loop_Break: "page_step up net y st = Break st1 \<Longrightarrow> page_loop up net y st = Some (Finished st1)"
  by (subst page_loop.simps) simp

lemma page_loop_Return: "page_step up net y st = Return st1 \<Longrightarrow> page_loop up net y st = Some (Returned st1)"
  by (subst page_loop.simps) simp

lemma page_loop_Continue: "page_step up net y st = Continue st1 \<Longrightarrow> page_loop up net y st = page_loop up net y st1"
  by (subst page_loop.simps) simp

lemma accumulated_fields:
  "accumulated batch st =
     \<lparr>all_results = (if (batch_count st + 1) mod SAVE_EVERY_N_BATCHES = 0 then []
                      else all_results st @ [batch]),
      batch_count = batch_count st + 1,
      last_birthdate = last_birthdate st, last_person = last_person st,
      env = \<lparr>pointer_file = pointer_file (env st), requests = requests (env st),
             snapshots = (if (batch_count st + 1) mod SAVE_EVERY_N_BATCHES = 0
                          then snapshots (env st) @ [all_results st @ [batch]]
                          else snapshots (env st)),
             final_output = final_output (env st), logged = logged (env st)\<rparr>\<rparr>"
  by (cases st, cases "env st") (simp add: accumulated_def Let_def)

lemma page_step_cursor_saved:
  assumes "query_wikidata net (page_query y st) MAX_RETRIES (env st) = (Inr (Some df), w)"
    and "\<not> df_empty df"
    and "iloc_last (process_results df) ''birthdate'' = Inr b"
    and "iloc_last (process_results df) ''person'' = Inr p"
    and "up = update_pointer_german ds \<or> (up = update_pointer_birth ds \<and> notna b \<and> notna p)"
  shows "page_step up net y st =
           (if nrows df < BATCH_SIZE then Break else Continue)
             (accumulated (process_results df)
                (st\<lparr>last_birthdate := b, last_person := p,
                    env := w\<lparr>pointer_file :=
                      save_pointer (py_str ds b @ ''|'' @ py_str ds p) (pointer_file w)\<rparr>\<rparr>))"
proof -
  have "up (process_results df) (st\<lparr>env := w\<rparr>)
      = Continue (st\<lparr>last_birthdate := b, last_person := p,
                    env := w\<lparr>pointer_file :=
                      save_pointer (py_str ds b @ ''|'' @ py_str ds p) (pointer_file w)\<rparr>\<rparr>)"
    using assms(3-5) by (auto simp: update_pointer_birth_def update_pointer_german_def)
  then show ?thesis
    using assms(1,2) by (simp add: page_step_def accumulate_eq process_results_nrows)
qed

lemma page_step_cursor_null:
  assumes "query_wikidata net (page_query y st) MAX_RETRIES (env st) = (Inr (Some df), w)"
    and "\<not> df_empty df"
    and "iloc_last (process_results df) ''birthdate'' = Inr b"
    and "iloc_last (process_results df) ''person'' = Inr p"
    and "\<not> (notna b \<and> notna p)"
  shows "page_step (update_pointer_birth ds) net y st =
           (if nrows df < BATCH_SIZE then Break else Continue)
             (accumulated (process_results df)
                (st\<lparr>last_birthdate := b, last_person := p,
                    env := logmsg Missing_or_invalid_pointer_fields w\<rparr>))"
proof -
  have "update_pointer_birth ds (process_results df) (st\<lparr>env := w\<rparr>)
      = Continue (st\<lparr>last_birthdate := b, last_person := p,
                     env := logmsg Missing_or_invalid_pointer_fields w\<rparr>)"
    using assms(3-5) by (auto simp: update_pointer_birth_def)
  then show ?thesis
    using assms(1,2) by (simp add: page_step_def accumulate_eq process_results_nrows)
qed

lemma page_step_no_birthdate_column:
  assumes "query_wikidata net (page_query y st) MAX_RETRIES (env st) = (Inr (Some df), w)"
    and "\<not> df_empty df"
    and "column (process_results df) ''birthdate'' = None"
    and "up = update_pointer_birth ds \<or> up = update_pointer_german ds"
  shows "page_step up net y st = Break (st\<lparr>env := logmsg (Error_extracting_pointer KeyError) w\<rparr>)"
proof -
  have "up (process_results df) (st\<lparr>env := w\<rparr>)
      = Break (st\<lparr>env := logmsg (Error_extracting_pointer KeyError) w\<rparr>)"
    using assms(3,4) by (auto simp: update_pointer_birth_def update_pointer_german_def iloc_last_def)
  then show ?thesis
    using assms(1,2) by (simp add: page_step_def)
qed

lemma page_step_no_person_column:
  assumes "query_wikidata net (page_query y st) MAX_RETRIES (env st) = (Inr (Some df), w)"
    and "\<not> df_empty df"
    and "iloc_last (process_results df) ''birthdate'' = Inr b"
    and "column (process_results df) ''person'' = None"
    and "up = update_pointer_birth ds \<or> up = update_pointer_german ds"
  shows "page_step up net y st =
           Break (st\<lparr>last_birthdate := b, env := logmsg (Error_extracting_pointer KeyError) w\<rparr>)"
proof -
  have "up (process_results df) (st\<lparr>env := w\<rparr>)
      = Break (st\<lparr>last_birthdate := b, env := logmsg (Error_extracting_pointer KeyError) w\<rparr>)"
    using assms(3-5) by (auto simp: update_pointer_birth_def update_pointer_german_def iloc_last_def)
  then show ?thesis
    using assms(1,2) by (simp add: page_step_def)
qed


lemma record_eq_after_save:
  "accumulated batch
     (st\<lparr>last_birthdate := b, last_person := p, env := w\<lparr>pointer_file := f\<rparr>\<rparr>) =
   \<lparr>all_results = (if (batch_count st + 1) mod SAVE_EVERY_N_BATCHES = 0 then []
                    else all_results st @ [batch]),
    batch_count = batch_count st + 1, last_birthdate = b, last_person = p,
    env = \<lparr>pointer_file = f, requests = requests w,
           snapshots = (if (batch_count st + 1) mod SAVE_EVERY_N_BATCHES = 0
                        then snapshots w @ [all_results st @ [batch]]
                        else snapshots w),
           final_output = final_output w, logged = logged w\<rparr>\<rparr>"
  by (simp add: accumulated_fields)

lemma record_eq_after_warning:
  "accumulated batch
     (st\<lparr>last_birthdate := b, last_person := p, env := logmsg e w\<rparr>) =
   \<lparr>all_results = (if (batch_count st + 1) mod SAVE_EVERY_N_BATCHES = 0 then []
                    else all_results st @ [batch]),
    batch_count = batch_count st + 1, last_birthdate = b, last_person = p,
    env = \<lparr>pointer_file = pointer_file w, requests = requests w,
           snapshots = (if (batch_count st + 1) mod SAVE_EVERY_N_BATCHES = 0
                        then snapshots w @ [all_results st @ [batch]]
                        else snapshots w),
           final_output = final_output w, logged = logged w @ [e]\<rparr>\<rparr>"
  by (simp add: accumulated_fields logmsg_def)

lemma query_net_no_records:
  "query_wikidata net_no_records q MAX_RETRIES w = (Inr (Some empty_df), w\<lparr>requests := Suc (requests w)\<rparr>)"
  by (simp add: query_wikidata_def MAX_RETRIES_def net_no_records_def upt_rec)

lemma query_net_one:
  "query_wikidata net_one q MAX_RETRIES w = (Inr (Some (from_records [record1])), w\<lparr>requests := Suc (requests w)\<rparr>)"
  by (simp add: query_wikidata_def MAX_RETRIES_def net_one_def upt_rec)

lemma from_records_record1:
  "from_records [record1] =
     \<lparr>nrows = 1, cols = [(''person'', [CDict [(''type'', CStr ''uri''), (''value'', CStr ''Q1'')]]),
                         (''birthdate'', [CDict [(''type'', CStr ''literal''), (''value'', CStr ''1900'')]])]\<rparr>"
  by (simp add: from_records_def record_keys_def record1_def)

lemma process_record1:
  "process_results (from_records [record1]) =
     \<lparr>nrows = 1, cols = [(''person'', [CStr ''Q1'']), (''birthdate'', [CStr ''1900''])]\<rparr>"
  by (simp add: from_records_record1 process_results_def column_def set_column_def unwrap_value_def)

lemma query_net_person_only:
  "query_wikidata net_person_only q MAX_RETRIES w =
     (Inr (Some (from_records [record_person_only])), w\<lparr>requests := Suc (requests w)\<rparr>)"
  by (simp add: query_wikidata_def MAX_RETRIES_def net_person_only_def upt_rec)

lemma query_net_no_birthdate:
  "query_wikidata net_no_birthdate q MAX_RETRIES w =
     (Inr (Some (from_records [record_no_birthdate])), w\<lparr>requests := Suc (requests w)\<rparr>)"
  by (simp add: query_wikidata_def MAX_RETRIES_def net_no_birthdate_def upt_rec)

lemma process_person_only:
  "process_results (from_records [record_person_only]) = \<lparr>nrows = 1, cols = [(''person'', [CStr ''Q1''])]\<rparr>"
  by (simp add: from_records_def record_keys_def record_person_only_def process_results_def
      column_def set_column_def unwrap_value_def)

lemma process_no_birthdate:
  "process_results (from_records [record_no_birthdate]) =
     \<lparr>nrows = 1, cols = [(''person'', [CStr ''Q1'']), (''birthdate'', [CNone])]\<rparr>"
  by (simp add: from_records_def record_keys_def record_no_birthdate_def process_results_def
      column_def set_column_def unwrap_value_def)

lemma query_net_birthdate_only:
  "query_wikidata net_birthdate_only q MAX_RETRIES w =
     (Inr (Some (from_records [record_birthdate_only])), w\<lparr>requests := Suc (requests w)\<rparr>)"
  by (simp add: query_wikidata_def MAX_RETRIES_def net_birthdate_only_def upt_rec)

lemma process_birthdate_only:
  "process_results (from_records [record_birthdate_only]) = \<lparr>nrows = 1, cols = [(''birthdate'', [CStr ''1900''])]\<rparr>"
  by (simp add: from_records_def record_keys_def record_birthdate_only_def process_results_def
      column_def set_column_def unwrap_value_def)

text \<open>
  C6, as the specification states it, fails for a short batch whose records have no
  birth date: the scope ends, but the batch is dropped and the pointer is not saved.
\<close>

theorem short_batch_without_cursor_is_dropped:
  "\<not> df_empty (from_records [record_person_only])
   \<and> nrows (from_records [record_person_only]) < BATCH_SIZE
   \<and> page_loop (update_pointer_birth dict_str0) net_person_only 1525 state0
     = Some (Finished \<lparr>all_results = [], batch_count = 0, last_birthdate = CNone, last_person = CNone,
          env = \<lparr>pointer_file = Absent, requests = 1, snapshots = [], final_output = None,
                 logged = [Error_extracting_pointer KeyError]\<rparr>\<rparr>)"
proof -
  have q: "query_wikidata net_person_only (page_query 1525 state0) MAX_RETRIES (env state0)
      = (Inr (Some (from_records [record_person_only])), world0\<lparr>requests := 1\<rparr>)"
    by (simp add: query_net_person_only state0_def world0_def)
  have ne: "\<not> df_empty (from_records [record_person_only])"
    by (simp add: from_records_def record_keys_def record_person_only_def df_empty_def)
  have sh: "nrows (from_records [record_person_only]) < BATCH_SIZE"
    by (simp add: from_records_def BATCH_SIZE_def)
  have col: "column (process_results (from_records [record_person_only])) ''birthdate'' = None"
    by (simp add: process_person_only column_def)
  have "page_step (update_pointer_birth dict_str0) net_person_only 1525 state0
      = Break (state0\<lparr>env := logmsg (Error_extracting_pointer KeyError) (world0\<lparr>requests := 1\<rparr>)\<rparr>)"
    using page_step_no_birthdate_column [OF q ne col, of "update_pointer_birth dict_str0" dict_str0]
    by simp
  then have "page_loop (update_pointer_birth dict_str0) net_person_only 1525 state0
      = Some (Finished (state0\<lparr>env := logmsg (Error_extracting_pointer KeyError) (world0\<lparr>requests := 1\<rparr>)\<rparr>))"
    by (rule page_loop_Break)
  then show ?thesis
    using ne sh by (simp add: state0_def world0_def logmsg_def)
qed

text \<open>
  C6, amended. In every scope an empty batch ends the scope; the pointer file, the
  buffer and the counter stay as they were. A batch that is not empty and shorter than
  the page size ends the scope after the one pass that handles it, with no further
  request, and what that pass does depends on the batch:
  \<^item> with both cursor columns, \<^verbatim>\<open>wiki_german_de.py\<close> always, and \<^verbatim>\<open>wiki_birth.py\<close>
    when both values of the last record pass \<^verbatim>\<open>pd.notna\<close>, saves the pointer
    \<^verbatim>\<open>birthdate|person\<close> of the last record, appends the batch, increments the counter
    and, when the counter is a multiple of \<^verbatim>\<open>SAVE_EVERY_N_BATCHES\<close>, writes the buffer
    and clears it;
  \<^item> with both columns and a value that is \<^verbatim>\<open>None\<close> or NaN, \<^verbatim>\<open>wiki_birth.py\<close> does the
    same except that it logs a warning and leaves the pointer file as it was;
  \<^item> without the column \<^verbatim>\<open>birthdate\<close> or \<^verbatim>\<open>person\<close> both scripts log the error and
    drop the batch: nothing is appended, counted, written or saved.
\<close>

theorem empty_or_short_batch_ends_scope:
  assumes "query_wikidata net (page_query y st) MAX_RETRIES (env st) = (Inr (Some df), w)"
  shows "(df_empty df \<longrightarrow>
            page_loop up net y st = Some (Finished (st\<lparr>env := w\<rparr>))
            \<and> pointer_file w = pointer_file (env st))
       \<and> (\<not> df_empty df \<and> nrows df < BATCH_SIZE
            \<and> iloc_last (process_results df) ''birthdate'' = Inr b
            \<and> iloc_last (process_results df) ''person'' = Inr p
            \<and> (up = update_pointer_german ds \<or> (up = update_pointer_birth ds \<and> notna b \<and> notna p)) \<longrightarrow>
            page_loop up net y st = Some (Finished
              \<lparr>all_results = (if (batch_count st + 1) mod SAVE_EVERY_N_BATCHES = 0 then []
                               else all_results st @ [process_results df]),
               batch_count = batch_count st + 1, last_birthdate = b, last_person = p,
               env = \<lparr>pointer_file =
                        save_pointer (py_str ds b @ ''|'' @ py_str ds p) (pointer_file (env st)),
                      requests = requests w,
                      snapshots = (if (batch_count st + 1) mod SAVE_EVERY_N_BATCHES = 0
                                   then snapshots (env st) @ [all_results st @ [process_results df]]
                                   else snapshots (env st)),
                      final_output = final_output (env st), logged = logged w\<rparr>\<rparr>))
       \<and> (\<not> df_empty df \<and> nrows df < BATCH_SIZE
            \<and> iloc_last (process_results df) ''birthdate'' = Inr b
            \<and> iloc_last (process_results df) ''person'' = Inr p
            \<and> \<not> (notna b \<and> notna p) \<longrightarrow>
            page_loop (update_pointer_birth ds) net y st = Some (Finished
              \<lparr>all_results = (if (batch_count st + 1) mod SAVE_EVERY_N_BATCHES = 0 then []
                               else all_results st @ [process_results df]),
               batch_count = batch_count st + 1, last_birthdate = b, last_person = p,
               env = \<lparr>pointer_file = pointer_file (env st),
                      requests = requests w,
                      snapshots = (if (batch_count st + 1) mod SAVE_EVERY_N_BATCHES = 0
                                   then snapshots (env st) @ [all_results st @ [process_results df]]
                                   else snapshots (env st)),
                      final_output = final_output (env st),
                      logged = logged w @ [Missing_or_invalid_pointer_fields]\<rparr>\<rparr>))
       \<and> (\<not> df_empty df \<and> column (process_results df) ''birthdate'' = None
            \<and> (up = update_pointer_birth ds \<or> up = update_pointer_german ds) \<longrightarrow>
            page_loop up net y st =
              Some (Finished (st\<lparr>env := logmsg (Error_extracting_pointer KeyError) w\<rparr>)))
       \<and> (\<not> df_empty df \<and> iloc_last (process_results df) ''birthdate'' = Inr b
            \<and> column (process_results df) ''person'' = None
            \<and> (up = update_pointer_birth ds \<or> up = update_pointer_german ds) \<longrightarrow>
            page_loop up net y st =
              Some (Finished (st\<lparr>last_birthdate := b,
                                env := logmsg (Error_extracting_pointer KeyError) w\<rparr>)))"
proof -
  note fr = query_wikidata_frame [OF assms]
  have p1: "page_loop up net y st = Some (Finished (st\<lparr>env := w\<rparr>))
            \<and> pointer_file w = pointer_file (env st)" if "df_empty df"
    using page_loop_Break [OF page_step_empty [OF assms that]] fr by simp
  have p2: "page_loop up net y st = Some (Finished
              \<lparr>all_results = (if (batch_count st + 1) mod SAVE_EVERY_N_BATCHES = 0 then []
                               else all_results st @ [process_results df]),
               batch_count = batch_count st + 1, last_birthdate = b, last_person = p,
               env = \<lparr>pointer_file =
                        save_pointer (py_str ds b @ ''|'' @ py_str ds p) (pointer_file (env st)),
                      requests = requests w,
                      snapshots = (if (batch_count st + 1) mod SAVE_EVERY_N_BATCHES = 0
                                   then snapshots (env st) @ [all_results st @ [process_results df]]
                                   else snapshots (env st)),
                      final_output = final_output (env st), logged = logged w\<rparr>\<rparr>)"
    if "\<not> df_empty df" and "nrows df < BATCH_SIZE"
      and "iloc_last (process_results df) ''birthdate'' = Inr b"
      and "iloc_last (process_results df) ''person'' = Inr p"
      and "up = update_pointer_german ds \<or> (up = update_pointer_birth ds \<and> notna b \<and> notna p)"
  proof -
    have "page_step up net y st =
        Break (accumulated (process_results df)
                (st\<lparr>last_birthdate := b, last_person := p,
                    env := w\<lparr>pointer_file :=
                      save_pointer (py_str ds b @ ''|'' @ py_str ds p) (pointer_file w)\<rparr>\<rparr>))"
      using page_step_cursor_saved [OF assms that(1,3,4,5)] that(2) by simp
    then show ?thesis
      using fr by (simp add: page_loop_Break record_eq_after_save)
  qed
  have p3: "page_loop (update_pointer_birth ds) net y st = Some (Finished
              \<lparr>all_results = (if (batch_count st + 1) mod SAVE_EVERY_N_BATCHES = 0 then []
                               else all_results st @ [process_results df]),
               batch_count = batch_count st + 1, last_birthdate = b, last_person = p,
               env = \<lparr>pointer_file = pointer_file (env st),
                      requests = requests w,
                      snapshots = (if (batch_count st + 1) mod SAVE_EVERY_N_BATCHES = 0
                                   then snapshots (env st) @ [all_results st @ [process_results df]]
                                   else snapshots (env st)),
                      final_output = final_output (env st),
                      logged = logged w @ [Missing_or_invalid_pointer_fields]\<rparr>\<rparr>)"
    if "\<not> df_empty df" and "nrows df < BATCH_SIZE"
      and "iloc_last (process_results df) ''birthdate'' = Inr b"
      and "iloc_last (process_results df) ''person'' = Inr p"
      and "\<not> (notna b \<and> notna p)"
  proof -
    have "page_step (update_pointer_birth ds) net y st =
        Break (accumulated (process_results df)
                (st\<lparr>last_birthdate := b, last_person := p,
                    env := logmsg Missing_or_invalid_pointer_fields w\<rparr>))"
      using page_step_cursor_null [OF assms that(1,3,4,5)] that(2) by simp
    then show ?thesis
      using fr by (simp add: page_loop_Break record_eq_after_warning)
  qed
  have p4: "page_loop up net y st =
              Some (Finished (st\<lparr>env := logmsg (Error_extracting_pointer KeyError) w\<rparr>))"
    if "\<not> df_empty df" and "column (process_results df) ''birthdate'' = None"
      and "up = update_pointer_birth ds \<or> up = update_pointer_german ds"
    using page_loop_Break [OF page_step_no_birthdate_column [OF assms that]] .
  have p5: "page_loop up net y st =
              Some (Finished (st\<lparr>last_birthdate := b,
                                env := logmsg (Error_extracting_pointer KeyError) w\<rparr>))"
    if "\<not> df_empty df" and "iloc_last (process_results df) ''birthdate'' = Inr b"
      and "column (process_results df) ''person'' = None"
      and "up = update_pointer_birth ds \<or> up = update_pointer_german ds"
    using page_loop_Break [OF page_step_no_person_column [OF assms that]] .
  show ?thesis
    using p1 p2 p3 p4 p5 by blast
qed

theorem empty_or_short_batch_ends_scope_witness:
  "page_loop (update_pointer_birth dict_str0) net_no_records 1525 state0
     = Some (Finished (state0\<lparr>env := world0\<lparr>requests := 1\<rparr>\<rparr>))
   \<and> page_loop (update_pointer_birth dict_str0) net_one 1525 state0
     = Some (Finished \<lparr>all_results = [\<lparr>nrows = 1, cols = [(''person'', [CStr ''Q1'']), (''birthdate'', [CStr ''1900''])]\<rparr>],
          batch_count = 1, last_birthdate = CStr ''1900'', last_person = CStr ''Q1'',
          env = \<lparr>pointer_file = Readable ''1900|Q1'', requests = 1, snapshots = [],
                 final_output = None, logged = []\<rparr>\<rparr>)
   \<and> page_loop (update_pointer_german dict_str0) net_no_birthdate 1525 state0
     = Some (Finished \<lparr>all_results = [\<lparr>nrows = 1, cols = [(''person'', [CStr ''Q1'']), (''birthdate'', [CNone])]\<rparr>],
          batch_count = 1, last_birthdate = CNone, last_person = CStr ''Q1'',
          env = \<lparr>pointer_file = Readable ''None|Q1'', requests = 1, snapshots = [],
                 final_output = None, logged = []\<rparr>\<rparr>)
   \<and> page_loop (update_pointer_birth dict_str0) net_no_birthdate 1525 state0
     = Some (Finished \<lparr>all_results = [\<lparr>nrows = 1, cols = [(''person'', [CStr ''Q1'']), (''birthdate'', [CNone])]\<rparr>],
          batch_count = 1, last_birthdate = CNone, last_person = CStr ''Q1'',
          env = \<lparr>pointer_file = Absent, requests = 1, snapshots = [],
                 final_output = None, logged = [Missing_or_invalid_pointer_fields]\<rparr>\<rparr>)
   \<and> page_loop (update_pointer_german dict_str0) net_person_only 1525 state0
     = Some (Finished (state0\<lparr>env := logmsg (Error_extracting_pointer KeyError) (world0\<lparr>requests := 1\<rparr>)\<rparr>))
   \<and> page_loop (update_pointer_birth dict_str0) net_birthdate_only 1525 state0
     = Some (Finished (state0\<lparr>last_birthdate := CStr ''1900'',
          env := logmsg (Error_extracting_pointer KeyError) (world0\<lparr>requests := 1\<rparr>)\<rparr>))"
proof -
  have q0: "query_wikidata net_no_records (page_query 1525 state0) MAX_RETRIES (env state0)
      = (Inr (Some empty_df), world0\<lparr>requests := 1\<rparr>)"
    by (simp add: query_net_no_records state0_def world0_def)
  have q1: "query_wikidata net_one (page_query 1525 state0) MAX_RETRIES (env state0)
      = (Inr (Some (from_records [record1])), world0\<lparr>requests := 1\<rparr>)"
    by (simp add: query_net_one state0_def world0_def)
  have q2: "query_wikidata net_no_birthdate (page_query 1525 state0) MAX_RETRIES (env state0)
      = (Inr (Some (from_records [record_no_birthdate])), world0\<lparr>requests := 1\<rparr>)"
    by (simp add: query_net_no_birthdate state0_def world0_def)
  have q3: "query_wikidata net_person_only (page_query 1525 state0) MAX_RETRIES (env state0)
      = (Inr (Some (from_records [record_person_only])), world0\<lparr>requests := 1\<rparr>)"
    by (simp add: query_net_person_only state0_def world0_def)
  have q4: "query_wikidata net_birthdate_only (page_query 1525 state0) MAX_RETRIES (env state0)
      = (Inr (Some (from_records [record_birthdate_only])), world0\<lparr>requests := 1\<rparr>)"
    by (simp add: query_net_birthdate_only state0_def world0_def)
  have e0: "df_empty empty_df"
    by (simp add: df_empty_def empty_df_def)
  have h1: "\<not> df_empty (from_records [record1]) \<and> nrows (from_records [record1]) < BATCH_SIZE
      \<and> iloc_last (process_results (from_records [record1])) ''birthdate'' = Inr (CStr ''1900'')
      \<and> iloc_last (process_results (from_records [record1])) ''person'' = Inr (CStr ''Q1'')
      \<and> (update_pointer_birth dict_str0 = update_pointer_german dict_str0
         \<or> (update_pointer_birth dict_str0 = update_pointer_birth dict_str0
            \<and> notna (CStr ''1900'') \<and> notna (CStr ''Q1'')))"
    by (simp add: process_record1 iloc_last_def column_def notna_def)
      (simp add: from_records_record1 df_empty_def BATCH_SIZE_def)
  have h2: "\<not> df_empty (from_records [record_no_birthdate])
      \<and> nrows (from_records [record_no_birthdate]) < BATCH_SIZE
      \<and> iloc_last (process_results (from_records [record_no_birthdate])) ''birthdate'' = Inr CNone
      \<and> iloc_last (process_results (from_records [record_no_birthdate])) ''person'' = Inr (CStr ''Q1'')"
    by (simp add: process_no_birthdate iloc_last_def column_def)
      (simp add: from_records_def record_keys_def record_no_birthdate_def df_empty_def BATCH_SIZE_def)
  have h2g: "update_pointer_german dict_str0 = update_pointer_german dict_str0
         \<or> (update_pointer_german dict_str0 = update_pointer_birth dict_str0
            \<and> notna CNone \<and> notna (CStr ''Q1''))"
    by simp
  have h2b: "\<not> (notna CNone \<and> notna (CStr ''Q1''))"
    by (simp add: notna_def)
  have h3: "\<not> df_empty (from_records [record_person_only])
      \<and> column (process_results (from_records [record_person_only])) ''birthdate'' = None
      \<and> (update_pointer_german dict_str0 = update_pointer_birth dict_str0
         \<or> update_pointer_german dict_str0 = update_pointer_german dict_str0)"
    by (simp add: process_person_only column_def)
      (simp add: from_records_def record_keys_def record_person_only_def df_empty_def)
  have h4: "\<not> df_empty (from_records [record_birthdate_only])
      \<and> iloc_last (process_results (from_records [record_birthdate_only])) ''birthdate'' = Inr (CStr ''1900'')
      \<and> column (process_results (from_records [record_birthdate_only])) ''person'' = None
      \<and> (update_pointer_birth dict_str0 = update_pointer_birth dict_str0
         \<or> update_pointer_birth dict_str0 = update_pointer_german dict_str0)"
    by (simp add: process_birthdate_only iloc_last_def column_def)
      (simp add: from_records_def record_keys_def record_birthdate_only_def df_empty_def)
  note i0 = empty_or_short_batch_ends_scope [OF q0, where up = "update_pointer_birth dict_str0"]
  note i1 = empty_or_short_batch_ends_scope [OF q1, where up = "update_pointer_birth dict_str0"
      and ds = dict_str0 and b = "CStr ''1900''" and p = "CStr ''Q1''"]
  note i2g = empty_or_short_batch_ends_scope [OF q2, where up = "update_pointer_german dict_str0"
      and ds = dict_str0 and b = CNone and p = "CStr ''Q1''"]
  note i2b = empty_or_short_batch_ends_scope [OF q2, where ds = dict_str0 and b = CNone and p = "CStr ''Q1''"]
  note i3 = empty_or_short_batch_ends_scope [OF q3, where up = "update_pointer_german dict_str0"
      and ds = dict_str0]
  note i4 = empty_or_short_batch_ends_scope [OF q4, where up = "update_pointer_birth dict_str0"
      and ds = dict_str0 and b = "CStr ''1900''"]
  have a: "page_loop (update_pointer_birth dict_str0) net_no_records 1525 state0
      = Some (Finished (state0\<lparr>env := world0\<lparr>requests := 1\<rparr>\<rparr>))"
    using i0 e0 by blast
  have "page_loop (update_pointer_birth dict_str0) net_one 1525 state0 = Some (Finished
       \<lparr>all_results = (if (batch_count state0 + 1) mod SAVE_EVERY_N_BATCHES = 0 then []
                        else all_results state0 @ [process_results (from_records [record1])]),
        batch_count = batch_count state0 + 1, last_birthdate = CStr ''1900'', last_person = CStr ''Q1'',
        env = \<lparr>pointer_file =
                 save_pointer (py_str dict_str0 (CStr ''1900'') @ ''|'' @ py_str dict_str0 (CStr ''Q1''))
                   (pointer_file (env state0)),
               requests = requests (world0\<lparr>requests := 1\<rparr>),
               snapshots = (if (batch_count state0 + 1) mod SAVE_EVERY_N_BATCHES = 0
                            then snapshots (env state0) @ [all_results state0 @ [process_results (from_records [record1])]]
                            else snapshots (env state0)),
               final_output = final_output (env state0), logged = logged (world0\<lparr>requests := 1\<rparr>)\<rparr>\<rparr>)"
    using i1 h1 by blast
  then have b: "page_loop (update_pointer_birth dict_str0) net_one 1525 state0
     = Some (Finished \<lparr>all_results = [\<lparr>nrows = 1, cols = [(''person'', [CStr ''Q1'']), (''birthdate'', [CStr ''1900''])]\<rparr>],
          batch_count = 1, last_birthdate = CStr ''1900'', last_person = CStr ''Q1'',
          env = \<lparr>pointer_file = Readable ''1900|Q1'', requests = 1, snapshots = [],
                 final_output = None, logged = []\<rparr>\<rparr>)"
    by (simp add: process_record1 py_str_def save_pointer_def SAVE_EVERY_N_BATCHES_def state0_def world0_def)
  have "page_loop (update_pointer_german dict_str0) net_no_birthdate 1525 state0 = Some (Finished
       \<lparr>all_results = (if (batch_count state0 + 1) mod SAVE_EVERY_N_BATCHES = 0 then []
                        else all_results state0 @ [process_results (from_records [record_no_birthdate])]),
        batch_count = batch_count state0 + 1, last_birthdate = CNone, last_person = CStr ''Q1'',
        env = \<lparr>pointer_file =
                 save_pointer (py_str dict_str0 CNone @ ''|'' @ py_str dict_str0 (CStr ''Q1''))
                   (pointer_file (env state0)),
               requests = requests (world0\<lparr>requests := 1\<rparr>),
               snapshots = (if (batch_count state0 + 1) mod SAVE_EVERY_N_BATCHES = 0
                            then snapshots (env state0) @ [all_results state0 @ [process_results (from_records [record_no_birthdate])]]
                            else snapshots (env state0)),
               final_output = final_output (env state0), logged = logged (world0\<lparr>requests := 1\<rparr>)\<rparr>\<rparr>)"
    using i2g h2 h2g by blast
  then have c: "page_loop (update_pointer_german dict_str0) net_no_birthdate 1525 state0
     = Some (Finished \<lparr>all_results = [\<lparr>nrows = 1, cols = [(''person'', [CStr ''Q1'']), (''birthdate'', [CNone])]\<rparr>],
          batch_count = 1, last_birthdate = CNone, last_person = CStr ''Q1'',
          env = \<lparr>pointer_file = Readable ''None|Q1'', requests = 1, snapshots = [],
                 final_output = None, logged = []\<rparr>\<rparr>)"
    by (simp add: process_no_birthdate py_str_def save_pointer_def SAVE_EVERY_N_BATCHES_def state0_def world0_def)
  have "page_loop (update_pointer_birth dict_str0) net_no_birthdate 1525 state0 = Some (Finished
       \<lparr>all_results = (if (batch_count state0 + 1) mod SAVE_EVERY_N_BATCHES = 0 then []
                        else all_results state0 @ [process_results (from_records [record_no_birthdate])]),
        batch_count = batch_count state0 + 1, last_birthdate = CNone, last_person = CStr ''Q1'',
        env = \<lparr>pointer_file = pointer_file (env state0),
               requests = requests (world0\<lparr>requests := 1\<rparr>),
               snapshots = (if (batch_count state0 + 1) mod SAVE_EVERY_N_BATCHES = 0
                            then snapshots (env state0) @ [all_results state0 @ [process_results (from_records [record_no_birthdate])]]
                            else snapshots (env state0)),
               final_output = final_output (env state0),
               logged = logged (world0\<lparr>requests := 1\<rparr>) @ [Missing_or_invalid_pointer_fields]\<rparr>\<rparr>)"
    using i2b h2 h2b by blast
  then have d: "page_loop (update_pointer_birth dict_str0) net_no_birthdate 1525 state0
     = Some (Finished \<lparr>all_results = [\<lparr>nrows = 1, cols = [(''person'', [CStr ''Q1'']), (''birthdate'', [CNone])]\<rparr>],
          batch_count = 1, last_birthdate = CNone, last_person = CStr ''Q1'',
          env = \<lparr>pointer_file = Absent, requests = 1, snapshots = [],
                 final_output = None, logged = [Missing_or_invalid_pointer_fields]\<rparr>\<rparr>)"
    by (simp add: process_no_birthdate SAVE_EVERY_N_BATCHES_def state0_def world0_def)
  have e: "page_loop (update_pointer_german dict_str0) net_person_only 1525 state0
     = Some (Finished (state0\<lparr>env := logmsg (Error_extracting_pointer KeyError) (world0\<lparr>requests := 1\<rparr>)\<rparr>))"
    using i3 h3 by blast
  have f: "page_loop (update_pointer_birth dict_str0) net_birthdate_only 1525 state0
     = Some (Finished (state0\<lparr>last_birthdate := CStr ''1900'',
          env := logmsg (Error_extracting_pointer KeyError) (world0\<lparr>requests := 1\<rparr>)\<rparr>))"
    using i4 h4 by blast
  from a b c d e f show ?thesis by blast
qed

section \<open>Terminal failure of a fetch\<close>

lemma fetch_years_append:
  "fetch_years up net (pre @ ys) st0 =
     (case fetch_years up net pre st0 of
        None \<Rightarrow> None
      | Some (Finished st1) \<Rightarrow> fetch_years up net ys st1
      | Some (Returned st1) \<Rightarrow> Some (Returned st1)
      | Some (Raised e st1) \<Rightarrow> Some (Raised e st1))"
proof (induction pre arbitrary: st0)
  case Nil
  then show ?case by simp
next
  case (Cons a pre)
  show ?case
    by (simp add: Cons.IH split: sum.splits option.splits outcome.splits prod.splits)
qed

lemma page_loop_continues:
  "continues n (page_step up net y) s = Some st \<Longrightarrow> page_loop up net y s = page_loop up net y st"
proof (induction n arbitrary: s)
  case 0
  then show ?case by simp
next
  case (Suc n)
  then obtain s1 where s1: "page_step up net y s = Continue s1" and c: "continues n (page_step up net y) s1 = Some st"
    by (auto split: flow.splits)
  show ?case
    using page_loop_Continue [OF s1] Suc.IH [OF c] by simp
qed

lemma query_wikidata_exhausted:
  assumes "fst (query_wikidata net q mr w) = Inr None"
  shows "pointer_file (snd (query_wikidata net q mr w)) = pointer_file w
       \<and> snapshots (snd (query_wikidata net q mr w)) = snapshots w
       \<and> final_output (snd (query_wikidata net q mr w)) = final_output w
       \<and> requests (snd (query_wikidata net q mr w)) = requests w + mr"
proof -
  obtain w' where eq: "query_wikidata net q mr w = (Inr None, w')"
    using assms by (cases "query_wikidata net q mr w") auto
  have all: "\<forall>i<length [0..<mr]. net (requests w + i) q = Request_exception"
    using assms query_attempts_None_iff [of net q mr "[0..<mr]" w]
    by (simp add: query_wikidata_def)
  have "requests w' = requests w + length [0..<mr]"
    using query_attempts_exhausted [of "[0..<mr]" net w q mr w'] all eq
    by (simp add: query_wikidata_def)
  then show ?thesis
    using query_wikidata_frame [OF eq] eq by simp
qed

lemma page_step_exhausted:
  assumes "fst (query_wikidata net (page_query y st) MAX_RETRIES (env st)) = Inr None"
  shows "page_step up net y st =
     Return (st\<lparr>env := logmsg Too_many_failures (snd (query_wikidata net (page_query y st) MAX_RETRIES (env st)))\<rparr>)"
  using assms
  by (cases "query_wikidata net (page_query y st) MAX_RETRIES (env st)") (simp add: page_step_def)

lemma fetch_id_exhausted:
  assumes "fst (query_wikidata net (Person_query i) MAX_RETRIES w) = Inr None"
  shows "fetch_id net i (rs, c, w) =
     Continue (rs, c, logmsg (Failed_to_fetch_id i) (snd (query_wikidata net (Person_query i) MAX_RETRIES w)))"
  using assms
  by (cases "query_wikidata net (Person_query i) MAX_RETRIES w") simp

text \<open>
  C2, amended. In \<^verbatim>\<open>wiki_birth.py\<close> and \<^verbatim>\<open>wiki_german_de.py\<close>: when the windows
  \<open>pre\<close> have been completed, window \<open>y\<close> has loaded its pointer and made \<open>n\<close> full passes,
  and the fetch of the next page fails on all \<^verbatim>\<open>MAX_RETRIES\<close> attempts, the run
  returns at once: no request follows the failed attempts, no window of \<open>rest\<close> is
  entered, nothing more is written, and the pointer file is as it was before the attempt.
  In \<^verbatim>\<open>missing.py\<close> the identifier is skipped, the pointer file is left as it was, and
  the loop goes on with the identifiers that remain.
\<close>

theorem terminal_failure_aborts_or_skips:
  "(start_years = pre @ y # rest
      \<and> fetch_years up net pre
          \<lparr>all_results = [], batch_count = 0, last_birthdate = CNone, last_person = CNone, env = w0\<rparr>
          = Some (Finished st1)
      \<and> load_pointer (pointer_file (env st1)) = Inr lp
      \<and> split_pointer lp = Inr (b, p)
      \<and> continues n (page_step up net y) (st1\<lparr>last_birthdate := b, last_person := p\<rparr>) = Some st
      \<and> fst (query_wikidata net (page_query y st) MAX_RETRIES (env st)) = Inr None
    \<longrightarrow> (\<exists>w'. fetch_data up net w0 = Some (Returned w')
           \<and> pointer_file w' = pointer_file (env st)
           \<and> requests w' = requests (env st) + MAX_RETRIES
           \<and> snapshots w' = snapshots (env st)
           \<and> final_output w' = final_output (env st)))
   \<and> (fst (query_wikidata net (Person_query i) MAX_RETRIES w) = Inr None
    \<longrightarrow> (\<exists>w'. fetch_ids net (i # ids) (rs, c, w) = fetch_ids net ids (rs, c, w')
           \<and> pointer_file w' = pointer_file w
           \<and> requests w' = requests w + MAX_RETRIES))"
proof (intro conjI impI)
  assume h: "start_years = pre @ y # rest
      \<and> fetch_years up net pre
          \<lparr>all_results = [], batch_count = 0, last_birthdate = CNone, last_person = CNone, env = w0\<rparr>
          = Some (Finished st1)
      \<and> load_pointer (pointer_file (env st1)) = Inr lp
      \<and> split_pointer lp = Inr (b, p)
      \<and> continues n (page_step up net y) (st1\<lparr>last_birthdate := b, last_person := p\<rparr>) = Some st
      \<and> fst (query_wikidata net (page_query y st) MAX_RETRIES (env st)) = Inr None"
  let ?q = "query_wikidata net (page_query y st) MAX_RETRIES (env st)"
  let ?st' = "st\<lparr>env := logmsg Too_many_failures (snd ?q)\<rparr>"
  let ?st0 = "\<lparr>all_results = [], batch_count = 0, last_birthdate = CNone, last_person = CNone, env = w0\<rparr>"
  from h have years: "start_years = pre @ y # rest" by blast
  from h have pre: "fetch_years up net pre ?st0 = Some (Finished st1)" by blast
  from h have load: "load_pointer (pointer_file (env st1)) = Inr lp" by blast
  from h have split: "split_pointer lp = Inr (b, p)" by blast
  from h have cont: "continues n (page_step up net y) (st1\<lparr>last_birthdate := b, last_person := p\<rparr>) = Some st"
    by blast
  from h have fail: "fst ?q = Inr None" by blast
  have ret: "page_loop up net y st = Some (Returned ?st')"
    using page_step_exhausted [OF fail] by (rule page_loop_Return)
  have loop: "page_loop up net y (st1\<lparr>last_birthdate := b, last_person := p\<rparr>) = Some (Returned ?st')"
    using page_loop_continues [OF cont] ret by simp
  have scope: "fetch_years up net (y # rest) st1 = Some (Returned ?st')"
    by (simp add: load split loop)
  have "fetch_years up net (pre @ y # rest) ?st0 = Some (Returned ?st')"
    by (simp only: fetch_years_append pre scope option.case outcome.case)
  then have "fetch_years up net start_years ?st0 = Some (Returned ?st')"
    by (simp only: years)
  then have run: "fetch_data up net w0 = Some (Returned (env ?st'))"
    by (simp add: fetch_data_def)
  have "pointer_file (env ?st') = pointer_file (env st)
      \<and> requests (env ?st') = requests (env st) + MAX_RETRIES
      \<and> snapshots (env ?st') = snapshots (env st)
      \<and> final_output (env ?st') = final_output (env st)"
    using query_wikidata_exhausted [OF fail]
    by (simp add: logmsg_def)
  with run show "\<exists>w'. fetch_data up net w0 = Some (Returned w')
           \<and> pointer_file w' = pointer_file (env st)
           \<and> requests w' = requests (env st) + MAX_RETRIES
           \<and> snapshots w' = snapshots (env st)
           \<and> final_output w' = final_output (env st)"
    by blast
next
  assume h: "fst (query_wikidata net (Person_query i) MAX_RETRIES w) = Inr None"
  let ?w' = "logmsg (Failed_to_fetch_id i) (snd (query_wikidata net (Person_query i) MAX_RETRIES w))"
  have "fetch_ids net (i # ids) (rs, c, w) = fetch_ids net ids (rs, c, ?w')"
    using fetch_id_exhausted [OF h] by simp
  moreover have "pointer_file ?w' = pointer_file w \<and> requests ?w' = requests w + MAX_RETRIES"
    using query_wikidata_exhausted [OF h] by (simp add: logmsg_def)
  ultimately show "\<exists>w'. fetch_ids net (i # ids) (rs, c, w) = fetch_ids net ids (rs, c, w')
           \<and> pointer_file w' = pointer_file w \<and> requests w' = requests w + MAX_RETRIES"
    by blast
qed


lemma query_net_q1_down:
  "query_wikidata net_q1_down (Person_query ''Q1'') MAX_RETRIES w =
     (Inr None, w\<lparr>requests := requests w + 10,
        logged := logged w @ [Request_error 1 10, Request_error 2 10, Request_error 3 10,
          Request_error 4 10, Request_error 5 10, Request_error 6 10, Request_error 7 10,
          Request_error 8 10, Request_error 9 10, Request_error 10 10, Max_retries_reached]\<rparr>)"
  by (simp add: query_wikidata_def MAX_RETRIES_def net_q1_down_def upt_rec logmsg_def)

lemma query_net_q1_down_other:
  "q \<noteq> Person_query ''Q1'' \<Longrightarrow>
   query_wikidata net_q1_down q MAX_RETRIES w =
     (Inr (Some (from_records [record1])), w\<lparr>requests := Suc (requests w)\<rparr>)"
  by (simp add: query_wikidata_def MAX_RETRIES_def net_q1_down_def upt_rec)

text \<open>
  C2, as the specification states it, fails in \<^verbatim>\<open>missing.py\<close>: the fetch for
  \<^verbatim>\<open>Q1\<close> fails on all ten attempts, and the run goes on to \<^verbatim>\<open>Q2\<close>, sends an
  eleventh request and saves \<^verbatim>\<open>Q2\<close> as the pointer.
\<close>

theorem missing_continues_after_terminal_failure:
  "fst (query_wikidata net_q1_down (Person_query ''Q1'') MAX_RETRIES world0) = Inr None
   \<and> map_outcome pointer_file
        (fetch_data_for_ids net_q1_down (Columns [(''wikidata_id'', [Some ''Q1'', Some ''Q2''])]) world0)
      = Finished (Readable ''Q2'')
   \<and> map_outcome requests
        (fetch_data_for_ids net_q1_down (Columns [(''wikidata_id'', [Some ''Q1'', Some ''Q2''])]) world0)
      = Finished 11"
proof -
  have ids: "ids_of_column [Some ''Q1'', Some ''Q2''] = [''Q1'', ''Q2'']"
    by (simp add: ids_of_column_def id_of_cell_def)
  have ne: "\<not> df_empty (from_records [record1])"
    by (simp add: from_records_record1 df_empty_def)
  have run: "fetch_data_for_ids net_q1_down (Columns [(''wikidata_id'', [Some ''Q1'', Some ''Q2''])]) world0
    = Finished (world0\<lparr>requests := 11, pointer_file := Readable ''Q2'',
        logged := [Request_error 1 10, Request_error 2 10, Request_error 3 10,
          Request_error 4 10, Request_error 5 10, Request_error 6 10, Request_error 7 10,
          Request_error 8 10, Request_error 9 10, Request_error 10 10, Max_retries_reached,
          Failed_to_fetch_id ''Q1''],
        final_output := Some [process_results (from_records [record1])]\<rparr>)"
    by (simp add: fetch_data_for_ids_def ids load_pointer_missing_def resume_ids_def
        query_net_q1_down query_net_q1_down_other ne save_final_def save_pointer_def
        SAVE_EVERY_N_BATCHES_ids_def logmsg_def world0_def)
  show ?thesis
    by (simp only: run query_net_q1_down) (simp add: world0_def)
qed

lemma query_net_first_only_0:
  "requests w = 0 \<Longrightarrow>
   query_wikidata net_first_only q MAX_RETRIES w =
     (Inr (Some (from_records [record1])), w\<lparr>requests := 1\<rparr>)"
  by (simp add: query_wikidata_def MAX_RETRIES_def net_first_only_def upt_rec)

lemma query_net_first_only_later:
  "0 < requests w \<Longrightarrow> fst (query_wikidata net_first_only q MAX_RETRIES w) = Inr None"
  using query_attempts_None_iff [of net_first_only q MAX_RETRIES "[0..<MAX_RETRIES]" w]
  by (simp add: query_wikidata_def net_first_only_def)

theorem terminal_failure_aborts_or_skips_witness:
  "map_option (map_outcome pointer_file) (fetch_data (update_pointer_birth dict_str0) net_first_only world0)
     = Some (Returned (Readable ''1900|Q1''))
   \<and> map_option (map_outcome requests) (fetch_data (update_pointer_birth dict_str0) net_first_only world0)
     = Some (Returned 11)
   \<and> map_option (map_outcome final_output) (fetch_data (update_pointer_birth dict_str0) net_first_only world0)
     = Some (Returned None)
   \<and> map_outcome (\<lambda>s. requests (snd (snd s))) (fetch_ids net_q1_down [''Q1''] ([], 0, world0)) = Finished 10"
proof -
  let ?up = "update_pointer_birth dict_str0"
  let ?df = "\<lparr>nrows = 1, cols = [(''person'', [CStr ''Q1'']), (''birthdate'', [CStr ''1900''])]\<rparr>"
  let ?w1 = "\<lparr>pointer_file = Readable ''1900|Q1'', requests = 1, snapshots = [],
                 final_output = None, logged = []\<rparr>"
  let ?st1 = "\<lparr>all_results = [?df], batch_count = 1, last_birthdate = CStr ''1900'',
               last_person = CStr ''Q1'', env = ?w1\<rparr>"
  have q0: "query_wikidata net_first_only (page_query 1525 state0) MAX_RETRIES (env state0)
      = (Inr (Some (from_records [record1])), world0\<lparr>requests := 1\<rparr>)"
    using query_net_first_only_0 [of "env state0"] by (simp add: state0_def world0_def)
  have ne: "\<not> df_empty (from_records [record1])"
    by (simp add: from_records_record1 df_empty_def)
  have step: "page_step ?up net_first_only 1525 state0 = Break ?st1"
    by (simp only: page_step_def q0)
      (simp add: process_record1 ne
        update_pointer_birth_def iloc_last_def column_def notna_def py_str_def save_pointer_def
        accumulate_def SAVE_EVERY_N_BATCHES_def BATCH_SIZE_def state0_def world0_def)
  have scope1: "fetch_years ?up net_first_only [1525] state0 = Some (Finished ?st1)"
    using page_loop_Break [OF step]
    by (simp add: load_pointer_def split_pointer_def state0_def world0_def)
  have years: "start_years = [1525] @ 1545 # drop 2 start_years"
    by (simp add: start_years_def upt_rec)
  have load: "load_pointer (pointer_file (env ?st1)) = Inr (Some ''1900|Q1'')"
    by (simp add: load_pointer_def strip_def py_isspace_def)
  have split: "split_pointer (Some ''1900|Q1'') = Inr (CStr ''1900'', CStr ''Q1'')"
    by (simp add: split_pointer_def)
  have cont: "continues 0 (page_step ?up net_first_only 1545)
      (?st1\<lparr>last_birthdate := CStr ''1900'', last_person := CStr ''Q1''\<rparr>) = Some ?st1"
    by simp
  have fail: "fst (query_wikidata net_first_only (page_query 1545 ?st1) MAX_RETRIES (env ?st1)) = Inr None"
    by (rule query_net_first_only_later) simp
  have pre: "fetch_years ?up net_first_only [1525]
      \<lparr>all_results = [], batch_count = 0, last_birthdate = CNone, last_person = CNone, env = world0\<rparr>
      = Some (Finished ?st1)"
    using scope1 by (simp add: state0_def)
  have fail1: "fst (query_wikidata net_q1_down (Person_query ''Q1'') MAX_RETRIES world0) = Inr None"
    by (simp add: query_net_q1_down)
  note inst = terminal_failure_aborts_or_skips
    [of "[1525]" 1545 "drop 2 start_years" ?up net_first_only world0 ?st1 "Some ''1900|Q1''"
        "CStr ''1900''" "CStr ''Q1''" 0 ?st1]
  note inst2 = terminal_failure_aborts_or_skips
    [where net = net_q1_down and i = "''Q1''" and w = world0 and ids = "[]" and rs = "[]" and c = 0]
  from inst years pre load split cont fail
  obtain w' where run: "fetch_data ?up net_first_only world0 = Some (Returned w')"
    and w': "pointer_file w' = pointer_file (env ?st1)" "requests w' = requests (env ?st1) + MAX_RETRIES"
      "final_output w' = final_output (env ?st1)"
    by blast
  from inst2 fail1
  obtain w2 where ids: "fetch_ids net_q1_down [''Q1''] ([], 0, world0) = fetch_ids net_q1_down [] ([], 0, w2)"
    and w2: "requests w2 = requests world0 + MAX_RETRIES"
    by blast
  show ?thesis
    using run w' ids w2 by (simp add: MAX_RETRIES_def world0_def)
qed

section \<open>Malformed cursor fields\<close>

lemma record_keys_bad_fold:
  "fold (\<lambda>r seen. add_keys seen (map fst r)) (replicate n record_no_birthdate) [''person'', ''birthdate'']
     = [''person'', ''birthdate'']"
  by (induction n) (simp_all add: record_no_birthdate_def)

lemma record_keys_bad: "record_keys (replicate (Suc n) record_no_birthdate) = [''person'', ''birthdate'']"
  using record_keys_bad_fold [of n] by (simp add: record_keys_def record_no_birthdate_def)

lemma from_records_bad:
  "from_records (replicate (Suc n) record_no_birthdate) =
     \<lparr>nrows = Suc n,
      cols = [(''person'', replicate (Suc n) (CDict [(''type'', CStr ''uri''), (''value'', CStr ''Q1'')])),
              (''birthdate'', replicate (Suc n) (CDict [(''type'', CStr ''literal'')]))]\<rparr>"
  unfolding from_records_def record_keys_bad
  by (simp add: record_no_birthdate_def)

lemma process_bad:
  "process_results (from_records (replicate (Suc n) record_no_birthdate)) =
     \<lparr>nrows = Suc n,
      cols = [(''person'', replicate (Suc n) (CStr ''Q1'')),
              (''birthdate'', replicate (Suc n) CNone)]\<rparr>"
proof -
  have d: "distinct (map fst (cols (from_records (replicate (Suc n) record_no_birthdate))))"
    by (simp only: from_records_bad) simp
  have "process_results (from_records (replicate (Suc n) record_no_birthdate))
      = (from_records (replicate (Suc n) record_no_birthdate))
          \<lparr>cols := map (\<lambda>(k, s). (k, map unwrap_value s))
                    (cols (from_records (replicate (Suc n) record_no_birthdate)))\<rparr>"
    by (rule process_results_map [OF d])
  also have "\<dots> = \<lparr>nrows = Suc n,
      cols = [(''person'', replicate (Suc n) (CStr ''Q1'')),
              (''birthdate'', replicate (Suc n) CNone)]\<rparr>"
    by (simp only: from_records_bad) (simp add: unwrap_value_def)
  finally show ?thesis .
qed


lemma batch_size_pos: "BATCH_SIZE \<noteq> 0"
  by (simp add: BATCH_SIZE_def)

lemma bad_page_raw:
  "from_records bad_page =
     \<lparr>nrows = BATCH_SIZE,
      cols = [(''person'', replicate BATCH_SIZE (CDict [(''type'', CStr ''uri''), (''value'', CStr ''Q1'')])),
              (''birthdate'', replicate BATCH_SIZE (CDict [(''type'', CStr ''literal'')]))]\<rparr>"
proof -
  obtain n where n: "BATCH_SIZE = Suc n"
    using batch_size_pos by (cases BATCH_SIZE) auto
  show ?thesis
    unfolding bad_page_def n by (rule from_records_bad)
qed

lemma bad_page_processed:
  "process_results (from_records bad_page) =
     \<lparr>nrows = BATCH_SIZE,
      cols = [(''person'', replicate BATCH_SIZE (CStr ''Q1'')),
              (''birthdate'', replicate BATCH_SIZE CNone)]\<rparr>"
proof -
  obtain n where n: "BATCH_SIZE = Suc n"
    using batch_size_pos by (cases BATCH_SIZE) auto
  show ?thesis
    unfolding bad_page_def n by (rule process_bad)
qed

lemma query_net_bad_page:
  "query_wikidata net_bad_page q MAX_RETRIES w =
     (Inr (Some (from_records bad_page)), w\<lparr>requests := Suc (requests w)\<rparr>)"
proof -
  have "bad_page \<noteq> []"
    using batch_size_pos by (simp add: bad_page_def)
  then show ?thesis
    by (simp add: query_wikidata_def MAX_RETRIES_def net_bad_page_def upt_rec)
qed

lemma bad_page_last:
  "iloc_last (process_results (from_records bad_page)) ''birthdate'' = Inr CNone"
  "iloc_last (process_results (from_records bad_page)) ''person'' = Inr (CStr ''Q1'')"
  by (simp_all only: bad_page_processed) (simp_all add: iloc_last_def column_def batch_size_pos)

lemma bad_page_not_empty: "\<not> df_empty (from_records bad_page)"
  by (simp only: bad_page_raw) (simp add: df_empty_def batch_size_pos)

lemma bad_page_nrows: "nrows (process_results (from_records bad_page)) = BATCH_SIZE"
  by (simp only: bad_page_processed) simp

lemma page_step_bad_page:
  "\<exists>st1. page_step (update_pointer_birth ds) net_bad_page y st = Continue st1"
  by (simp only: page_step_def query_net_bad_page)
    (simp add: bad_page_not_empty bad_page_last bad_page_nrows update_pointer_birth_def notna_def
       accumulate_eq)

lemma page_loop_bad_page_aux:
  assumes "page_loop up net y st = Some r"
  shows "up = update_pointer_birth ds \<longrightarrow> net = net_bad_page \<longrightarrow> False"
proof (rule page_loop.raw_induct
    [where P = "\<lambda>up net y st r. up = update_pointer_birth ds \<longrightarrow> net = net_bad_page \<longrightarrow> False",
     OF _ assms])
  fix pl :: "(dataframe \<Rightarrow> fetch_state \<Rightarrow> fetch_state flow) \<Rightarrow> (nat \<Rightarrow> query \<Rightarrow> binding list response)
     \<Rightarrow> int \<Rightarrow> fetch_state \<Rightarrow> fetch_state outcome option"
  fix up net y st r
  assume IH: "\<And>up net y st r. pl up net y st = Some r \<Longrightarrow>
      up = update_pointer_birth ds \<longrightarrow> net = net_bad_page \<longrightarrow> False"
  assume unfolded: "(case page_step up net y st of
        Continue st1 \<Rightarrow> pl up net y st1
      | Break st1 \<Rightarrow> Some (Finished st1)
      | Return st1 \<Rightarrow> Some (Returned st1)
      | Raise e st1 \<Rightarrow> Some (Raised e st1)) = Some r"
  show "up = update_pointer_birth ds \<longrightarrow> net = net_bad_page \<longrightarrow> False"
  proof (intro impI)
    assume u: "up = update_pointer_birth ds" and n: "net = net_bad_page"
    obtain st1 where "page_step up net y st = Continue st1"
      using page_step_bad_page [of ds y st] u n by auto
    with unfolded have "pl up net y st1 = Some r"
      by simp
    with IH u n show False
      by blast
  qed
qed

lemma page_loop_bad_page: "page_loop (update_pointer_birth ds) net_bad_page y st = None"
  using page_loop_bad_page_aux [of "update_pointer_birth ds" net_bad_page y st _ ds]
  by (cases "page_loop (update_pointer_birth ds) net_bad_page y st") auto

text \<open>
  C3, as the specification states it, fails in \<^verbatim>\<open>wiki_birth.py\<close>: when every page
  is full and the birth date of its last record has no value, the pointer update is
  skipped with a warning, the loop asks for the next page, and the run never leaves
  the first window.
\<close>

theorem bad_cursor_loop_never_ends:
  "iloc_last (process_results (from_records bad_page)) ''birthdate'' = Inr CNone
   \<and> notna CNone = False
   \<and> fetch_data (update_pointer_birth dict_str0) net_bad_page world0 = None"
proof -
  have "fetch_years (update_pointer_birth dict_str0) net_bad_page start_years
      \<lparr>all_results = [], batch_count = 0, last_birthdate = CNone, last_person = CNone, env = world0\<rparr> = None"
    by (simp add: start_years_def upt_rec load_pointer_def split_pointer_def world0_def
        page_loop_bad_page)
  then show ?thesis
    by (simp add: fetch_data_def bad_page_last notna_def)
qed

lemma update_pointer_missing_column:
  assumes "column b ''birthdate'' = None \<or> column b ''person'' = None"
    and "up = update_pointer_birth ds \<or> up = update_pointer_german ds"
  shows "\<exists>st1. up b st = Break st1 \<and> all_results st1 = all_results st
       \<and> batch_count st1 = batch_count st
       \<and> pointer_file (env st1) = pointer_file (env st)
       \<and> requests (env st1) = requests (env st)
       \<and> snapshots (env st1) = snapshots (env st)
       \<and> (\<exists>e. logged (env st1) = logged (env st) @ [Error_extracting_pointer e])"
  using assms
  by (auto simp: update_pointer_birth_def update_pointer_german_def iloc_last_def logmsg_def
      split: sum.splits option.splits if_splits)

text \<open>
  C3, amended. When the processed batch has no column \<^verbatim>\<open>birthdate\<close> or no column
  \<^verbatim>\<open>person\<close>, both scripts log the error and end the scope: the batch is not kept,
  the pointer file is not touched, no request follows. When both columns are there and a
  value of the last record is \<^verbatim>\<open>None\<close> or NaN, \<^verbatim>\<open>wiki_birth.py\<close> logs a warning,
  does not save the pointer and keeps the batch; the scope ends only when the batch is
  shorter than the page size. \<^verbatim>\<open>wiki_german_de.py\<close> makes no check: whatever the two
  values are, it saves the pointer made of their texts, keeps the batch, and ends the
  scope only when the batch is shorter than the page size.
\<close>

theorem malformed_cursor_fields:
  assumes "query_wikidata net (page_query y st) MAX_RETRIES (env st) = (Inr (Some df), w)"
    and "\<not> df_empty df"
  shows "((column (process_results df) ''birthdate'' = None \<or> column (process_results df) ''person'' = None)
            \<and> (up = update_pointer_birth ds \<or> up = update_pointer_german ds) \<longrightarrow>
          (\<exists>st'. page_loop up net y st = Some (Finished st')
             \<and> all_results st' = all_results st \<and> batch_count st' = batch_count st
             \<and> pointer_file (env st') = pointer_file (env st)
             \<and> requests (env st') = requests w
             \<and> snapshots (env st') = snapshots (env st)
             \<and> (\<exists>e. logged (env st') = logged w @ [Error_extracting_pointer e])))
       \<and> (iloc_last (process_results df) ''birthdate'' = Inr b
            \<and> iloc_last (process_results df) ''person'' = Inr p
            \<and> \<not> (notna b \<and> notna p) \<longrightarrow>
          page_step (update_pointer_birth ds) net y st =
            (if nrows df < BATCH_SIZE then Break else Continue)
              (accumulated (process_results df)
                 (st\<lparr>last_birthdate := b, last_person := p,
                     env := logmsg Missing_or_invalid_pointer_fields w\<rparr>)))
       \<and> (iloc_last (process_results df) ''birthdate'' = Inr b
            \<and> iloc_last (process_results df) ''person'' = Inr p \<longrightarrow>
          (\<exists>st'. page_step (update_pointer_german ds) net y st =
                   (if nrows df < BATCH_SIZE then Break else Continue) st'
             \<and> st' = accumulated (process_results df)
                       (st\<lparr>last_birthdate := b, last_person := p,
                           env := w\<lparr>pointer_file :=
                             save_pointer (py_str ds b @ ''|'' @ py_str ds p) (pointer_file w)\<rparr>\<rparr>)
             \<and> pointer_file (env st') =
                 save_pointer (py_str ds b @ ''|'' @ py_str ds p) (pointer_file (env st))
             \<and> logged (env st') = logged w
             \<and> last_birthdate st' = b \<and> last_person st' = p
             \<and> batch_count st' = batch_count st + 1))"
proof (intro conjI impI)
  assume h: "(column (process_results df) ''birthdate'' = None \<or> column (process_results df) ''person'' = None)
            \<and> (up = update_pointer_birth ds \<or> up = update_pointer_german ds)"
  then obtain st1 where up: "up (process_results df) (st\<lparr>env := w\<rparr>) = Break st1"
    and st1: "all_results st1 = all_results st" "batch_count st1 = batch_count st"
      "pointer_file (env st1) = pointer_file w" "requests (env st1) = requests w"
      "snapshots (env st1) = snapshots w"
      "\<exists>e. logged (env st1) = logged w @ [Error_extracting_pointer e]"
    using update_pointer_missing_column [of "process_results df" up ds "st\<lparr>env := w\<rparr>"]
    by auto
  have "page_step up net y st = Break st1"
    using assms up by (simp add: page_step_def)
  then have "page_loop up net y st = Some (Finished st1)"
    by (rule page_loop_Break)
  then show "\<exists>st'. page_loop up net y st = Some (Finished st')
             \<and> all_results st' = all_results st \<and> batch_count st' = batch_count st
             \<and> pointer_file (env st') = pointer_file (env st)
             \<and> requests (env st') = requests w
             \<and> snapshots (env st') = snapshots (env st)
             \<and> (\<exists>e. logged (env st') = logged w @ [Error_extracting_pointer e])"
    using st1 query_wikidata_frame [OF assms(1)] by simp
next
  assume h: "iloc_last (process_results df) ''birthdate'' = Inr b
            \<and> iloc_last (process_results df) ''person'' = Inr p
            \<and> \<not> (notna b \<and> notna p)"
  then show "page_step (update_pointer_birth ds) net y st =
            (if nrows df < BATCH_SIZE then Break else Continue)
              (accumulated (process_results df)
                 (st\<lparr>last_birthdate := b, last_person := p,
                     env := logmsg Missing_or_invalid_pointer_fields w\<rparr>))"
    using page_step_cursor_null [OF assms, of b p ds] by blast
next
  assume h: "iloc_last (process_results df) ''birthdate'' = Inr b
            \<and> iloc_last (process_results df) ''person'' = Inr p"
  let ?st' = "accumulated (process_results df)
                (st\<lparr>last_birthdate := b, last_person := p,
                    env := w\<lparr>pointer_file :=
                      save_pointer (py_str ds b @ ''|'' @ py_str ds p) (pointer_file w)\<rparr>\<rparr>)"
  have step: "page_step (update_pointer_german ds) net y st =
      (if nrows df < BATCH_SIZE then Break else Continue) ?st'"
    using page_step_cursor_saved [OF assms, of b p "update_pointer_german ds" ds] h by blast
  have flds: "pointer_file (env ?st') =
        save_pointer (py_str ds b @ ''|'' @ py_str ds p) (pointer_file (env st))
      \<and> logged (env ?st') = logged w
      \<and> last_birthdate ?st' = b \<and> last_person ?st' = p
      \<and> batch_count ?st' = batch_count st + 1"
    using query_wikidata_frame [OF assms(1)] by (simp add: record_eq_after_save)
  show "\<exists>st'. page_step (update_pointer_german ds) net y st =
                   (if nrows df < BATCH_SIZE then Break else Continue) st'
             \<and> st' = ?st'
             \<and> pointer_file (env st') =
                 save_pointer (py_str ds b @ ''|'' @ py_str ds p) (pointer_file (env st))
             \<and> logged (env st') = logged w
             \<and> last_birthdate st' = b \<and> last_person st' = p
             \<and> batch_count st' = batch_count st + 1"
    using step flds by blast
qed

theorem malformed_cursor_fields_witness:
  "map_option (map_outcome (\<lambda>s. (all_results s, pointer_file (env s), requests (env s))))
       (page_loop (update_pointer_german dict_str0) net_person_only 1525 state0)
     = Some (Finished ([], Absent, 1))
   \<and> page_step (update_pointer_birth dict_str0) net_no_birthdate 1525 state0
     = Break \<lparr>all_results = [\<lparr>nrows = 1, cols = [(''person'', [CStr ''Q1'']), (''birthdate'', [CNone])]\<rparr>],
          batch_count = 1, last_birthdate = CNone, last_person = CStr ''Q1'',
          env = \<lparr>pointer_file = Absent, requests = 1, snapshots = [], final_output = None,
                 logged = [Missing_or_invalid_pointer_fields]\<rparr>\<rparr>
   \<and> page_step (update_pointer_german dict_str0) net_no_birthdate 1525 state0
     = Break \<lparr>all_results = [\<lparr>nrows = 1, cols = [(''person'', [CStr ''Q1'']), (''birthdate'', [CNone])]\<rparr>],
          batch_count = 1, last_birthdate = CNone, last_person = CStr ''Q1'',
          env = \<lparr>pointer_file = Readable ''None|Q1'', requests = 1, snapshots = [], final_output = None,
                 logged = []\<rparr>\<rparr>"
proof -
  have q1: "query_wikidata net_person_only (page_query 1525 state0) MAX_RETRIES (env state0)
      = (Inr (Some (from_records [record_person_only])), world0\<lparr>requests := 1\<rparr>)"
    by (simp add: query_net_person_only state0_def world0_def)
  have ne1: "\<not> df_empty (from_records [record_person_only])"
    by (simp add: from_records_def record_keys_def record_person_only_def df_empty_def)
  have col1: "(column (process_results (from_records [record_person_only])) ''birthdate'' = None
        \<or> column (process_results (from_records [record_person_only])) ''person'' = None)
      \<and> (update_pointer_german dict_str0 = update_pointer_birth dict_str0
        \<or> update_pointer_german dict_str0 = update_pointer_german dict_str0)"
    by (simp add: process_person_only column_def)
  have q2: "query_wikidata net_no_birthdate (page_query 1525 state0) MAX_RETRIES (env state0)
      = (Inr (Some (from_records [record_no_birthdate])), world0\<lparr>requests := 1\<rparr>)"
    by (simp add: query_net_no_birthdate state0_def world0_def)
  have ne2: "\<not> df_empty (from_records [record_no_birthdate])"
    by (simp add: from_records_def record_keys_def record_no_birthdate_def df_empty_def)
  have last2: "iloc_last (process_results (from_records [record_no_birthdate])) ''birthdate'' = Inr CNone
      \<and> iloc_last (process_results (from_records [record_no_birthdate])) ''person'' = Inr (CStr ''Q1'')"
    by (simp add: process_no_birthdate iloc_last_def column_def)
  have na2: "\<not> (notna CNone \<and> notna (CStr ''Q1''))"
    by (simp add: notna_def)
  have short: "nrows (from_records [record_no_birthdate]) < BATCH_SIZE"
    by (simp add: from_records_def BATCH_SIZE_def)
  note i1 = malformed_cursor_fields [OF q1 ne1, where up = "update_pointer_german dict_str0" and ds = dict_str0]
  note i2 = malformed_cursor_fields [OF q2 ne2, where b = CNone and p = "CStr ''Q1''" and ds = dict_str0]
  obtain st' where loop: "page_loop (update_pointer_german dict_str0) net_person_only 1525 state0 = Some (Finished st')"
    and st': "all_results st' = all_results state0" "pointer_file (env st') = pointer_file (env state0)"
      "requests (env st') = requests (world0\<lparr>requests := 1\<rparr>)"
    using i1 col1 by blast
  have a: "map_option (map_outcome (\<lambda>s. (all_results s, pointer_file (env s), requests (env s))))
       (page_loop (update_pointer_german dict_str0) net_person_only 1525 state0)
     = Some (Finished ([], Absent, 1))"
    using loop st' by (simp add: state0_def world0_def)
  have "page_step (update_pointer_birth dict_str0) net_no_birthdate 1525 state0 =
      (if nrows (from_records [record_no_birthdate]) < BATCH_SIZE then Break else Continue)
        (accumulated (process_results (from_records [record_no_birthdate]))
           (state0\<lparr>last_birthdate := CNone, last_person := CStr ''Q1'',
                   env := logmsg Missing_or_invalid_pointer_fields (world0\<lparr>requests := 1\<rparr>)\<rparr>))"
    using i2 last2 na2 by blast
  then have b: "page_step (update_pointer_birth dict_str0) net_no_birthdate 1525 state0
     = Break \<lparr>all_results = [\<lparr>nrows = 1, cols = [(''person'', [CStr ''Q1'']), (''birthdate'', [CNone])]\<rparr>],
          batch_count = 1, last_birthdate = CNone, last_person = CStr ''Q1'',
          env = \<lparr>pointer_file = Absent, requests = 1, snapshots = [], final_output = None,
                 logged = [Missing_or_invalid_pointer_fields]\<rparr>\<rparr>"
    using short
    by (simp add: process_no_birthdate accumulated_def SAVE_EVERY_N_BATCHES_def logmsg_def
        state0_def world0_def)
  have "page_step (update_pointer_german dict_str0) net_no_birthdate 1525 state0 =
      (if nrows (from_records [record_no_birthdate]) < BATCH_SIZE then Break else Continue)
        (accumulated (process_results (from_records [record_no_birthdate]))
           (state0\<lparr>last_birthdate := CNone, last_person := CStr ''Q1'',
                   env := (world0\<lparr>requests := 1\<rparr>)\<lparr>pointer_file :=
                     save_pointer (py_str dict_str0 CNone @ ''|'' @ py_str dict_str0 (CStr ''Q1''))
                       (pointer_file (world0\<lparr>requests := 1\<rparr>))\<rparr>\<rparr>))"
    using i2 last2 by blast
  then have c: "page_step (update_pointer_german dict_str0) net_no_birthdate 1525 state0
     = Break \<lparr>all_results = [\<lparr>nrows = 1, cols = [(''person'', [CStr ''Q1'']), (''birthdate'', [CNone])]\<rparr>],
          batch_count = 1, last_birthdate = CNone, last_person = CStr ''Q1'',
          env = \<lparr>pointer_file = Readable ''None|Q1'', requests = 1, snapshots = [], final_output = None,
                 logged = []\<rparr>\<rparr>"
    using short
    by (simp add: process_no_birthdate accumulated_def SAVE_EVERY_N_BATCHES_def py_str_def
        save_pointer_def state0_def world0_def)
  from a b c show ?thesis by blast
qed

section \<open>Resuming from a pointer that is not in the list\<close>

lemma index_of_None: "(index_of x ys = None) = (x \<notin> set ys)"
  by (induction ys) auto

lemma index_of_Some: "index_of x ys = Some i \<Longrightarrow> i < length ys \<and> ys ! i = x"
  by (induction ys arbitrary: i) (auto split: if_splits)

text \<open>
  C7: when the pointer that \<^verbatim>\<open>load_pointer\<close> returns is not among the identifiers of
  the file, \<^verbatim>\<open>fetch_data_for_ids\<close> is the loop over all the identifiers, from the
  first one, with the warning logged; the lookup raises nothing. The loop is over a
  finite list and every fetch is bounded by \<^verbatim>\<open>MAX_RETRIES\<close>, so the function has a
  value for every network, file and world.
\<close>

theorem resume_with_unknown_pointer:
  assumes "map_of cs ''wikidata_id'' = Some col"
    and "ids_of_column col \<noteq> []"
    and "fst (load_pointer_missing (pointer_file w)) = Some p"
    and "p \<notin> set (ids_of_column col)"
  shows "fetch_data_for_ids net (Columns cs) w =
           save_final (fetch_ids net (ids_of_column col)
             ([], 0, if p = [] then w else logmsg (Pointer_not_found p) w))
       \<and> fst (resume_ids (Some p) (ids_of_column col) w) = ids_of_column col"
proof -
  have msgs: "load_pointer_missing (pointer_file w) = (Some p, [])"
    using assms(3) by (auto simp: load_pointer_missing_def split: pfile.splits)
  have idx: "index_of p (ids_of_column col) = None"
    using assms(4) by (simp add: index_of_None)
  have res: "resume_ids (Some p) (ids_of_column col) w =
      (ids_of_column col, if p = [] then w else logmsg (Pointer_not_found p) w)"
    by (simp add: resume_ids_def idx)
  show ?thesis
    using assms(1,2) by (simp add: fetch_data_for_ids_def msgs res)
qed

theorem resume_with_unknown_pointer_witness:
  "fetch_data_for_ids net_no_records
     (Columns [(''name'', [Some ''a'', Some ''b'', Some ''c'']),
               (''wikidata_id'', [Some ''http://www.wikidata.org/entity/Q1'', None, Some ''Q2''])])
     (world0\<lparr>pointer_file := Readable ''Q9''\<rparr>)
   = Finished \<lparr>pointer_file = Readable ''Q9'', requests = 2, snapshots = [], final_output = None,
        logged = [Pointer_not_found ''Q9'', No_data_fetched]\<rparr>"
proof -
  let ?cs = "[(''name'', [Some ''a'', Some ''b'', Some ''c'']),
               (''wikidata_id'', [Some ''http://www.wikidata.org/entity/Q1'', None, Some ''Q2''])]"
  let ?col = "[Some ''http://www.wikidata.org/entity/Q1'', None, Some ''Q2'']"
  let ?w = "world0\<lparr>pointer_file := Readable ''Q9''\<rparr>"
  have ids: "ids_of_column ?col = [''Q1'', ''Q2'']"
    by (simp add: ids_of_column_def id_of_cell_def)
  have c: "map_of ?cs ''wikidata_id'' = Some ?col" by simp
  have ne: "ids_of_column ?col \<noteq> []" by (simp add: ids)
  have ld: "fst (load_pointer_missing (pointer_file ?w)) = Some ''Q9''"
    by (simp add: load_pointer_missing_def strip_def py_isspace_def)
  have nin: "''Q9'' \<notin> set (ids_of_column ?col)" by (simp add: ids)
  have "fetch_data_for_ids net_no_records (Columns ?cs) ?w =
      save_final (fetch_ids net_no_records [''Q1'', ''Q2''] ([], 0, logmsg (Pointer_not_found ''Q9'') ?w))"
    using resume_with_unknown_pointer [OF c ne ld nin, of net_no_records] by (simp add: ids)
  also have "\<dots> = Finished \<lparr>pointer_file = Readable ''Q9'', requests = 2, snapshots = [], final_output = None,
        logged = [Pointer_not_found ''Q9'', No_data_fetched]\<rparr>"
    by (simp add: query_net_no_records df_empty_def empty_df_def save_final_def logmsg_def world0_def)
  finally show ?thesis .
qed

text \<open>
  A pointer file whose content ends in a no-break space: \<^verbatim>\<open>strip()\<close> removes it,
  the pointer is in the list, and the run resumes after it.
\<close>

lemma resume_with_padded_pointer:
  "load_pointer_missing (Readable (''Q2'' @ [CHR 0xA0])) = (Some ''Q2'', [])
   \<and> fst (resume_ids (fst (load_pointer_missing (Readable (''Q2'' @ [CHR 0xA0]))))
            [''Q1'', ''Q2'', ''Q3''] world0) = [''Q3'']"
  by (simp add: load_pointer_missing_def strip_def py_isspace_def resume_ids_def)

section \<open>Properties of the label writer\<close>


















section \<open>Properties of the enrichment script\<close>






















end
